theory Spec2Isabelle
  imports Complex_Main
begin

section \<open>Numbers and library primitives\<close>

text \<open>
  The TypeScript sources compute on JavaScript numbers. They are modelled here as the
  real numbers: every arithmetic operation is the exact one, so rounding to binary64 (and
  the rounding to binary32 of the \<^verbatim>\<open>Float32Array\<close> holding the running positions)
  is idealised away. One step keeps its rounding: the step calculation of the carousel,
  whose cycle index hangs on how the division of the clock time by the cycle duration is
  rounded. \<^verbatim>\<open>Math.random()\<close> is an explicit stream of draws
  \<open>rnd :: nat \<Rightarrow> real\<close> read at a running index, each draw in \<open>[0, 1)\<close>.

  The functions of this section are those of the JavaScript language and of the three.js
  library that the sources call: the remainder operator \<^verbatim>\<open>%\<close>,
  \<^verbatim>\<open>THREE.MathUtils.clamp\<close>, and \<^verbatim>\<open>Vector3.lerp\<close>,
  \<^verbatim>\<open>Vector3.distanceTo\<close>, \<^verbatim>\<open>Vector3.length\<close>.
\<close>

text \<open>JavaScript \<^verbatim>\<open>a % b\<close>: the remainder of the division truncated towards
  zero, so the result has the sign of the dividend.\<close>

definition js_trunc :: "real \<Rightarrow> int" where
  "js_trunc v = (if 0 \<le> v then \<lfloor>v\<rfloor> else \<lceil>v\<rceil>)"

definition js_rem :: "real \<Rightarrow> real \<Rightarrow> real" where
  "js_rem a b = a - b * of_int (js_trunc (a / b))"

text \<open>\<^verbatim>\<open>THREE.MathUtils.clamp(value, min, max)\<close> is
  \<^verbatim>\<open>Math.max(min, Math.min(max, value))\<close>.\<close>

definition clamp :: "real \<Rightarrow> real \<Rightarrow> real \<Rightarrow> real" where
  "clamp v lo hi = max lo (min hi v)"

text \<open>\<^verbatim>\<open>THREE.Vector3\<close>; the fields are named \<open>vx\<close>, \<open>vy\<close>, \<open>vz\<close>
  so that \<open>x\<close>, \<open>y\<close>, \<open>z\<close> stay free for variables.\<close>

record Vector3 =
  vx :: real
  vy :: real
  vz :: real

definition vec3 :: "real \<Rightarrow> real \<Rightarrow> real \<Rightarrow> Vector3" where
  "vec3 a b c = \<lparr>vx = a, vy = b, vz = c\<rparr>"

text \<open>\<^verbatim>\<open>this.lerp(v, alpha)\<close>: each coordinate moves by \<open>alpha\<close> times its
  difference to \<open>v\<close>.\<close>

definition lerp :: "Vector3 \<Rightarrow> Vector3 \<Rightarrow> real \<Rightarrow> Vector3" where
  "lerp a v alpha =
     vec3 (vx a + (vx v - vx a) * alpha)
          (vy a + (vy v - vy a) * alpha)
          (vz a + (vz v - vz a) * alpha)"

definition distanceTo :: "Vector3 \<Rightarrow> Vector3 \<Rightarrow> real" where
  "distanceTo a v = sqrt ((vx a - vx v)\<^sup>2 + (vy a - vy v)\<^sup>2 + (vz a - vz v)\<^sup>2)"

definition vlength :: "Vector3 \<Rightarrow> real" where
  "vlength a = sqrt ((vx a)\<^sup>2 + (vy a)\<^sup>2 + (vz a)\<^sup>2)"

section \<open>The photo carousel (ChristmasFilmFrame)\<close>

text \<open>\<^verbatim>\<open>easeInOutCubic\<close>; \<^verbatim>\<open>Math.pow(v, 3)\<close> is the cube.\<close>

definition easeInOutCubic :: "real \<Rightarrow> real" where
  "easeInOutCubic x = (if x < 0.5 then 4 * x * x * x else 1 - (-2 * x + 2) ^ 3 / 2)"

text \<open>Binary64 in the step calculation. \<open>round64\<close> rounds a real number to the nearest
  binary64 value, ties to even, in the normal range (the step calculation neither overflows
  nor reaches the subnormal numbers): \<open>binade x\<close> is the exponent of \<open>x\<close>, and the 53-bit
  significand is rounded by \<open>rne\<close>. A decimal literal is the rounding of its value, and
  every arithmetic operation is the rounding of its exact result. The remainder
  \<^verbatim>\<open>%\<close> of two binary64 values is always a binary64 value, so it is not rounded, and
  neither is \<^verbatim>\<open>Math.floor\<close>. \<^verbatim>\<open>Math.pow(v, 3)\<close> is taken as the rounding of the
  cube.\<close>

definition rne :: "real \<Rightarrow> int" where
  "rne v =
     (let f = \<lfloor>v\<rfloor>; r = v - of_int f
      in if r < 1/2 then f else if 1/2 < r then f + 1 else if even f then f else f + 1)"

definition binade :: "real \<Rightarrow> int" where
  "binade x = \<lfloor>log 2 \<bar>x\<bar>\<rfloor>"

definition round64 :: "real \<Rightarrow> real" where
  "round64 x =
     (if x = 0 then 0
      else of_int (rne (x * 2 powi (52 - binade x))) * 2 powi (binade x - 52))"

definition HOLD_DURATION :: real where
  "HOLD_DURATION = round64 1.0"

definition MOVE_DURATION :: real where
  "MOVE_DURATION = round64 0.8"

definition CYCLE_DURATION :: real where
  "CYCLE_DURATION = round64 (HOLD_DURATION + MOVE_DURATION)"

text \<open>\<^verbatim>\<open>easeInOutCubic\<close> as the step calculation evaluates it, operation by operation
  from left to right.\<close>

definition easeInOutCubic64 :: "real \<Rightarrow> real" where
  "easeInOutCubic64 x =
     (if x < 0.5 then round64 (round64 (round64 (4 * x) * x) * x)
      else round64 (1 - round64 (round64 ((round64 (round64 (-2 * x) + 2)) ^ 3) / 2)))"

text \<open>The step calculation of the carousel branch of \<^verbatim>\<open>useFrame\<close>: the scroll
  index at clock time \<open>time\<close>, a binary64 value.\<close>

definition cycleIndex :: "real \<Rightarrow> int" where
  "cycleIndex time = \<lfloor>round64 (time / CYCLE_DURATION)\<rfloor>"

definition cyclePhase :: "real \<Rightarrow> real" where
  "cyclePhase time = js_rem time CYCLE_DURATION"

definition scrollIndex :: "real \<Rightarrow> real" where
  "scrollIndex time =
     (if cyclePhase time > HOLD_DURATION
      then round64 (of_int (cycleIndex time)
             + easeInOutCubic64
                 (round64 (round64 (cyclePhase time - HOLD_DURATION) / MOVE_DURATION)))
      else of_int (cycleIndex time))"

text \<open>The horizontal offset of a panel, from its slot position \<open>baseX\<close>, the scroll
  offset and the total width: the remainder followed by the two wrap tests, in the order of
  the source.\<close>

definition wrapX :: "real \<Rightarrow> real \<Rightarrow> real \<Rightarrow> real" where
  "wrapX baseX currentScrollOffset totalWidth =
     (let x0 = js_rem (baseX - currentScrollOffset) totalWidth;
          x1 = (if x0 < - totalWidth / 2 then x0 + totalWidth else x0);
          x2 = (if x1 > totalWidth / 2 then x1 - totalWidth else x1)
      in x2)"

section \<open>The particle animator (ParticleSystem)\<close>

datatype AppState = TREE | EXPLODE

datatype ParticleType = LEAF | ORNAMENT | RIBBON | STAR_PARTICLE

text \<open>\<^verbatim>\<open>THREE.Euler\<close> as its three angles; a \<^verbatim>\<open>THREE.Color\<close> symbolically, as the
  hex string it is built from or as the \<^verbatim>\<open>lerpColors\<close> of two colours.\<close>

type_synonym Euler = "real \<times> real \<times> real"

datatype Color = HexColor string | LerpColors Color Color real

text \<open>\<^verbatim>\<open>ParticleData\<close> of \<^verbatim>\<open>types.ts\<close>; the fields \<^verbatim>\<open>id\<close>, \<^verbatim>\<open>scale\<close>
  and \<^verbatim>\<open>type\<close> are \<open>pid\<close>, \<open>pscale\<close> and \<open>ptype\<close> here.\<close>

record ParticleData =
  pid :: int
  treePosition :: Vector3
  explodePosition :: Vector3
  rotation :: Euler
  pscale :: real
  color :: "Color option"
  ptype :: ParticleType

definition waveSpeed :: real where
  "waveSpeed = 20"

definition waveStartOffset :: real where
  "waveStartOffset = -15"

definition currentWaveHeight :: "real \<Rightarrow> real" where
  "currentWaveHeight timeSinceTransition = waveStartOffset + timeSinceTransition * waveSpeed"

text \<open>The "Behavior Logic" block of the per-particle loop: the scale before the streak
  rule. The three flags are those of the component, \<open>wave\<close> is the current wave height.\<close>

definition behaviorScale ::
  "bool \<Rightarrow> bool \<Rightarrow> bool \<Rightarrow> bool \<Rightarrow> real \<Rightarrow> real \<Rightarrow> ParticleData \<Rightarrow> real" where
  "behaviorScale isRibbon isStar isOrnament targetIsTree time wave particle =
     (if isRibbon then
        (if targetIsTree then
           (if vy (treePosition particle) < wave then
              (let normalizedH = (vy (treePosition particle) + 12.5) / 25
               in pscale particle * (0.8 + 0.4 * sin (time * 3 + normalizedH * 10)))
            else 0.01)
         else 0)
      else if isStar then
        (if targetIsTree then
           (if wave > 14.0 then
              (let popProgress = min 1 ((wave - 14.0) / 5)
               in pscale particle * popProgress
                    * (1 + 0.3 * sin (time * 5 + of_int (pid particle))))
            else 0.001)
         else 0)
      else
        (if targetIsTree then pscale particle
         else if isOrnament then pscale particle * 1.2
         else pscale particle))"

text \<open>The same block, for the target: leaves and ornaments bob in tree mode and drift in
  explode mode; ribbon and star particles aim at the stored position itself.\<close>

definition behaviorTarget :: "bool \<Rightarrow> bool \<Rightarrow> bool \<Rightarrow> real \<Rightarrow> ParticleData \<Rightarrow> Vector3" where
  "behaviorTarget isRibbon isStar targetIsTree time particle =
     (let target = (if targetIsTree then treePosition particle else explodePosition particle)
      in if isRibbon \<or> isStar then target
         else if targetIsTree then
           vec3 (vx target)
                (vy target + sin (time * 1.5 + of_int (pid particle) * 0.1) * 0.05)
                (vz target)
         else
           vec3 (vx target + cos (time * 0.3 + of_int (pid particle)) * 0.08)
                (vy target + sin (time * 0.2 + of_int (pid particle)) * 0.05)
                (vz target + sin (time * 0.3 + of_int (pid particle)) * 0.08))"

text \<open>The "Lerp Position" block: the interpolation factor of the frame.\<close>

definition activeLerp :: "bool \<Rightarrow> bool \<Rightarrow> real \<Rightarrow> real \<Rightarrow> ParticleData \<Rightarrow> real" where
  "activeLerp isRibbon targetIsTree lerpFactor wave particle =
     (if isRibbon \<and> targetIsTree then
        (if vy (treePosition particle) < wave then 0.2 else 0.05)
      else lerpFactor)"

text \<open>The "Hide streaks" rule of the rotation block, on the position after the lerp.\<close>

definition hideStreaks :: "bool \<Rightarrow> bool \<Rightarrow> bool \<Rightarrow> Vector3 \<Rightarrow> ParticleData \<Rightarrow> real \<Rightarrow> real" where
  "hideStreaks isRibbon isStar targetIsTree tempVec particle scale =
     (if (isRibbon \<or> isStar) \<and> targetIsTree
         \<and> distanceTo tempVec (treePosition particle) > 3.0
      then 0.01 else scale)"

text \<open>The interpolation factor one particle gets in a frame of a component of type
  \<open>type\<close>, and the whole loop body: from the running position \<open>cur\<close> to the new running
  position and the scale written to the instance matrix. (The rotation written with them
  depends on neither and feeds into neither; it is left out.)\<close>

definition particleLerp ::
  "ParticleType \<Rightarrow> real \<Rightarrow> AppState \<Rightarrow> real \<Rightarrow> real \<Rightarrow> real \<Rightarrow> ParticleData \<Rightarrow> real" where
  "particleLerp type animationSpeed appState time transitionStart delta particle =
     (let targetIsTree = (appState = TREE);
          timeSinceTransition = time - transitionStart;
          lerpFactor = clamp (delta * animationSpeed) 0 1
      in activeLerp (type = RIBBON) targetIsTree lerpFactor
           (currentWaveHeight timeSinceTransition) particle)"

definition animateParticle ::
  "ParticleType \<Rightarrow> real \<Rightarrow> AppState \<Rightarrow> real \<Rightarrow> real \<Rightarrow> real \<Rightarrow> ParticleData \<Rightarrow> Vector3
   \<Rightarrow> Vector3 \<times> real" where
  "animateParticle type animationSpeed appState time transitionStart delta particle cur =
     (let isRibbon = (type = RIBBON);
          isStar = (type = STAR_PARTICLE);
          isOrnament = (type = ORNAMENT);
          targetIsTree = (appState = TREE);
          timeSinceTransition = time - transitionStart;
          wave = currentWaveHeight timeSinceTransition;
          scale = behaviorScale isRibbon isStar isOrnament targetIsTree time wave particle;
          tempTarget = behaviorTarget isRibbon isStar targetIsTree time particle;
          tempVec = lerp cur tempTarget
                      (particleLerp type animationSpeed appState time transitionStart delta particle)
      in (tempVec, hideStreaks isRibbon isStar targetIsTree tempVec particle scale))"

text \<open>The state a component keeps between frames: the running positions, the application
  state seen by the last frame and the clock time of the last change.\<close>

record SystemState =
  currentPositions :: "Vector3 list"
  lastState :: AppState
  transitionStartTime :: real

text \<open>\<^verbatim>\<open>data.length > 0 ? data[0].type : 'LEAF'\<close>\<close>

definition systemType :: "ParticleData list \<Rightarrow> ParticleType" where
  "systemType data = (case data of [] \<Rightarrow> LEAF | p # _ \<Rightarrow> ptype p)"

text \<open>The refs after the layout effect of the first render: the running positions are the
  tree positions.\<close>

definition initSystem :: "ParticleData list \<Rightarrow> AppState \<Rightarrow> SystemState" where
  "initSystem data appState =
     \<lparr>currentPositions = map treePosition data, lastState = appState, transitionStartTime = 0\<rparr>"

text \<open>One call of the \<^verbatim>\<open>useFrame\<close> callback on a mounted mesh: the new state and the
  scale emitted for each instance.\<close>

definition useFrame ::
  "ParticleData list \<Rightarrow> real \<Rightarrow> AppState \<Rightarrow> real \<Rightarrow> real \<Rightarrow> SystemState
   \<Rightarrow> SystemState \<times> real list" where
  "useFrame data animationSpeed appState time delta st =
     (let start = (if appState \<noteq> lastState st then time else transitionStartTime st);
          outs = map2 (animateParticle (systemType data) animationSpeed appState time start delta)
                   data (currentPositions st)
      in (\<lparr>currentPositions = map fst outs, lastState = appState, transitionStartTime = start\<rparr>,
          map snd outs))"

text \<open>A run of frames under one value of the \<^verbatim>\<open>appState\<close> prop; a frame is the pair
  of the clock's elapsed time and delta. The result is the last state and the scales of
  every frame, in order.\<close>

fun runFrames ::
  "ParticleData list \<Rightarrow> real \<Rightarrow> AppState \<Rightarrow> (real \<times> real) list \<Rightarrow> SystemState
   \<Rightarrow> SystemState \<times> real list list" where
  "runFrames data animationSpeed appState [] st = (st, [])"
| "runFrames data animationSpeed appState ((time, delta) # frames) st =
     (let (st1, scales) = useFrame data animationSpeed appState time delta st;
          (st2, rest) = runFrames data animationSpeed appState frames st1
      in (st2, scales # rest))"

text \<open>A scale counts as near-zero (hidden) when it is at most \<open>0.01\<close>, the larger of the
  constants the animator assigns to hidden particles.\<close>

definition nearZero :: "real \<Rightarrow> bool" where
  "nearZero scale \<longleftrightarrow> scale \<le> 0.01"

section \<open>The particle generator (TreeLogic)\<close>

text \<open>The stream of \<^verbatim>\<open>Math.random()\<close> draws. A function that draws takes the stream and
  the index of the next draw, and returns the index after its last draw.\<close>

type_synonym Rng = "nat \<Rightarrow> real"

definition treeHeight :: real where
  "treeHeight = 25"

definition baseRadius :: real where
  "baseRadius = 8"

definition countLeaves :: nat where
  "countLeaves = 6000"

definition countOrnaments :: nat where
  "countOrnaments = 80"

definition countRibbon :: nat where
  "countRibbon = 1800"

definition countStar :: nat where
  "countStar = 400"

text \<open>\<^verbatim>\<open>randomSpherePoint\<close>: three draws; \<^verbatim>\<open>Math.cbrt\<close> is the real cube root.\<close>

definition randomSpherePoint :: "real \<Rightarrow> Rng \<Rightarrow> nat \<Rightarrow> Vector3 \<times> nat" where
  "randomSpherePoint r rnd k =
     (let u = rnd k;
          v = rnd (k + 1);
          theta = 2 * pi * u;
          phi = arccos (2 * v - 1);
          radius = root 3 (rnd (k + 2)) * r
      in (vec3 (radius * sin phi * cos theta)
               (radius * sin phi * sin theta)
               (radius * cos phi),
          k + 3))"

text \<open>The bodies of the four generation loops, for loop index \<open>i\<close>. The draws are read in
  the order in which the source evaluates its calls of \<^verbatim>\<open>Math.random()\<close>.\<close>

definition genLeaf :: "nat \<Rightarrow> Rng \<Rightarrow> nat \<Rightarrow> ParticleData \<times> nat" where
  "genLeaf i rnd k =
     (let y = rnd k * treeHeight;
          hPercent = y / treeHeight;
          currentRadius = (1 - hPercent) * baseRadius;
          angle = rnd (k + 1) * pi * 2;
          r = sqrt (rnd (k + 2)) * currentRadius;
          treePos = vec3 (cos angle * r) (y - treeHeight / 2) (sin angle * r);
          (explodePos, k1) = randomSpherePoint 45 rnd (k + 3);
          scale = rnd k1 * 0.3 + 0.1
      in (\<lparr>pid = int i, treePosition = treePos, explodePosition = explodePos,
           rotation = (rnd (k1 + 1) * pi, rnd (k1 + 2) * pi, rnd (k1 + 3) * pi),
           pscale = scale, color = None, ptype = LEAF\<rparr>,
          k1 + 4))"

text \<open>An ornament comes with the flag \<^verbatim>\<open>isRed\<close> that sends it to the red or the gold
  list.\<close>

definition genOrnament :: "nat \<Rightarrow> Rng \<Rightarrow> nat \<Rightarrow> (ParticleData \<times> bool) \<times> nat" where
  "genOrnament i rnd k =
     (let y = rnd k * treeHeight;
          hPercent = y / treeHeight;
          currentRadius = (1 - hPercent) * baseRadius * 0.9;
          angle = rnd (k + 1) * pi * 2;
          r = currentRadius + rnd (k + 2) * 0.5;
          treePos = vec3 (cos angle * r) (y - treeHeight / 2) (sin angle * r);
          (explodePos, k1) = randomSpherePoint 55 rnd (k + 3);
          scale = rnd k1 * 0.3 + 0.25;
          isRed = (rnd (k1 + 1) > 0.5)
      in ((\<lparr>pid = int (countLeaves + i), treePosition = treePos, explodePosition = explodePos,
            rotation = (rnd (k1 + 2) * pi, rnd (k1 + 3) * pi, 0),
            pscale = scale, color = None, ptype = ORNAMENT\<rparr>, isRed),
          k1 + 4))"

definition turns :: real where
  "turns = 4.0"

definition colorBottom :: Color where
  "colorBottom = HexColor ''#ffffdd''"

definition colorTop :: Color where
  "colorTop = HexColor ''#fbbf24''"

definition genRibbon :: "nat \<Rightarrow> Rng \<Rightarrow> nat \<Rightarrow> ParticleData \<times> nat" where
  "genRibbon i rnd k =
     (let pct = of_nat i / of_nat countRibbon;
          y = pct * treeHeight;
          hPercent = y / treeHeight;
          spread = 0.2 + (hPercent * 1.5);
          currentRadius = ((1 - hPercent) * baseRadius) + 1.2 + (rnd k - 0.5) * spread;
          angle = pct * turns * pi * 2;
          treePos = vec3 (cos angle * currentRadius) (y - treeHeight / 2) (sin angle * currentRadius);
          (explodePos, k1) = randomSpherePoint 60 rnd (k + 1);
          scale = rnd k1 * 0.15 + 0.08
      in (\<lparr>pid = int (countLeaves + countOrnaments + i), treePosition = treePos,
           explodePosition = explodePos,
           rotation = (rnd (k1 + 1), rnd (k1 + 2), rnd (k1 + 3)),
           pscale = scale, color = Some (LerpColors colorBottom colorTop hPercent),
           ptype = RIBBON\<rparr>,
          k1 + 4))"

definition outerRadius :: real where
  "outerRadius = 1.4"

definition starCenterY :: real where
  "starCenterY = (treeHeight / 2) + 1.5"

definition genStar :: "nat \<Rightarrow> Rng \<Rightarrow> nat \<Rightarrow> ParticleData \<times> nat" where
  "genStar i rnd k =
     (let lobe = of_int \<lfloor>rnd k * 5\<rfloor>;
          t = rnd (k + 1);
          widthAtT = (1 - t) * 0.6;
          radialDist = t * outerRadius;
          lobeAngle = (lobe / 5) * pi * 2 - pi / 2;
          perpAngle = lobeAngle + pi / 2;
          offset = (rnd (k + 2) - 0.5) * widthAtT;
          pt = vec3 (cos lobeAngle * radialDist + cos perpAngle * offset)
                    (sin lobeAngle * radialDist + sin perpAngle * offset)
                    ((rnd (k + 3) - 0.5) * 0.6);
          treePos = vec3 (vx pt + 0) (vy pt + starCenterY) (vz pt + 0);
          (explodePos, k1) = randomSpherePoint 80 rnd (k + 4)
      in (\<lparr>pid = int (countLeaves + countOrnaments + countRibbon + i), treePosition = treePos,
           explodePosition = explodePos,
           rotation = (rnd k1 * pi, rnd (k1 + 1) * pi, rnd (k1 + 2) * pi),
           pscale = rnd (k1 + 3) * 0.12 + 0.05, color = Some colorTop,
           ptype = STAR_PARTICLE\<rparr>,
          k1 + 4))"

text \<open>A counting \<^verbatim>\<open>for\<close> loop that pushes one item per index and threads the draw
  index through.\<close>

fun genLoop :: "(nat \<Rightarrow> Rng \<Rightarrow> nat \<Rightarrow> 'a \<times> nat) \<Rightarrow> nat list \<Rightarrow> Rng \<Rightarrow> nat \<Rightarrow> 'a list \<times> nat" where
  "genLoop g [] rnd k = ([], k)"
| "genLoop g (i # is) rnd k =
     (let (p, k1) = g i rnd k;
          (ps, k2) = genLoop g is rnd k1
      in (p # ps, k2))"

record TreeData =
  leaves :: "ParticleData list"
  redOrnaments :: "ParticleData list"
  goldOrnaments :: "ParticleData list"
  ribbonParticles :: "ParticleData list"
  starParticles :: "ParticleData list"

definition generateTree :: "Rng \<Rightarrow> TreeData" where
  "generateTree rnd =
     (let (lv, k1) = genLoop genLeaf [0..<countLeaves] rnd 0;
          (orn, k2) = genLoop genOrnament [0..<countOrnaments] rnd k1;
          (rib, k3) = genLoop genRibbon [0..<countRibbon] rnd k2;
          (str, k4) = genLoop genStar [0..<countStar] rnd k3
      in \<lparr>leaves = lv,
          redOrnaments = map fst (filter snd orn),
          goldOrnaments = map fst (filter (\<lambda>e. \<not> snd e) orn),
          ribbonParticles = rib,
          starParticles = str\<rparr>)"

section \<open>The gallery layout (PhotoGallery)\<close>

definition yMin :: real where
  "yMin = -10"

definition yMax :: real where
  "yMax = 7"

text \<open>\<^verbatim>\<open>baseRadius\<close> of the layout; the tree generator has its own.\<close>

definition layoutBaseRadius :: real where
  "layoutBaseRadius = 7.5"

definition minDistance :: real where
  "minDistance = 3.6"

definition maxAttempts :: nat where
  "maxAttempts = 100"

definition getSpiralPos :: "nat \<Rightarrow> nat \<Rightarrow> Vector3" where
  "getSpiralPos index n_count =
     (let hPct = of_nat index / of_nat n_count;
          y = yMin + hPct * (yMax - yMin);
          hNorm = (y + 12.5) / 25;
          r = (1 - hNorm) * layoutBaseRadius + 1.2;
          angle = of_nat index * 2.5
      in vec3 (cos angle * r) y (sin angle * r))"

text \<open>One placement of the result. \<open>valid\<close> is the loop's local flag of that name, kept
  with the placement: whether the position came from the random search.\<close>

record Placement =
  treePos :: Vector3
  treeRot :: Euler
  valid :: bool

text \<open>The candidate of one attempt, from three draws.\<close>

definition candidateAt :: "Rng \<Rightarrow> nat \<Rightarrow> Vector3" where
  "candidateAt rnd k =
     (let y = yMin + rnd k * (yMax - yMin);
          hFromBottom = y + 12.5;
          hNormalized = max 0 (min 1 (hFromBottom / 25));
          coneRadius = (1 - hNormalized) * layoutBaseRadius;
          r = coneRadius + 0.8 + rnd (k + 1) * 0.5;
          angle = rnd (k + 2) * pi * 2
      in vec3 (cos angle * r) y (sin angle * r))"

text \<open>The collision loop over the placements made so far.\<close>

definition collision :: "Vector3 \<Rightarrow> Placement list \<Rightarrow> bool" where
  "collision c data = list_ex (\<lambda>existing. distanceTo c (treePos existing) < minDistance) data"

text \<open>The attempt loop with \<open>n\<close> attempts left: the first candidate without collision, or
  nothing after the last attempt.\<close>

fun attempts :: "nat \<Rightarrow> Rng \<Rightarrow> nat \<Rightarrow> Placement list \<Rightarrow> Vector3 option \<times> nat" where
  "attempts 0 rnd k data = (None, k)"
| "attempts (Suc n) rnd k data =
     (let c = candidateAt rnd k
      in if \<not> collision c data then (Some c, k + 3) else attempts n rnd (k + 3) data)"

text \<open>The outer loop over the photos still to place. The constructor of
  \<^verbatim>\<open>THREE.Object3D\<close> draws four numbers for the uuid of \<^verbatim>\<open>dummy\<close>, between the
  attempts and the jitter. \<open>orient\<close> stands for the three.js calls
  \<^verbatim>\<open>lookAt(0, bestPos.y, 0)\<close> and \<^verbatim>\<open>rotateY(Math.PI)\<close> read back as Euler angles; the
  jitter of at most ten degrees per axis is added to them.\<close>

fun layoutLoop ::
  "(Vector3 \<Rightarrow> Euler) \<Rightarrow> nat \<Rightarrow> nat list \<Rightarrow> Rng \<Rightarrow> nat \<Rightarrow> Placement list \<Rightarrow> Placement list" where
  "layoutLoop orient n_count [] rnd k data = data"
| "layoutLoop orient n_count (i # is) rnd k data =
     (let (found, k1) = attempts maxAttempts rnd k data;
          bestPos = (case found of Some c \<Rightarrow> c | None \<Rightarrow> getSpiralPos i n_count);
          k2 = k1 + 4;
          (rx, ry, rz) = orient bestPos;
          maxRad = 10 * pi / 180;
          xJitter = (rnd k2 - 0.5) * 2 * maxRad;
          yJitter = (rnd (k2 + 1) - 0.5) * 2 * maxRad;
          zJitter = (rnd (k2 + 2) - 0.5) * 2 * maxRad;
          entry = \<lparr>treePos = bestPos, treeRot = (rx + xJitter, ry + yJitter, rz + zJitter),
                   valid = (found \<noteq> None)\<rparr>
      in layoutLoop orient n_count is rnd (k2 + 3) (data @ [entry]))"

definition layoutData :: "(Vector3 \<Rightarrow> Euler) \<Rightarrow> string list \<Rightarrow> Rng \<Rightarrow> Placement list" where
  "layoutData orient photos rnd =
     layoutLoop orient (length photos) [0..<length photos] rnd 0 []"

text \<open>What the outer loop keeps true of the placements made so far, when it is at index
  \<open>length data\<close>. A placement from the random search is at least \<open>minDistance\<close> from every
  earlier one, and it is the first of at most \<open>maxAttempts\<close> successive candidates that
  does not collide with the earlier placements. A placement not from the random search is
  the spiral position of its index, and all \<open>maxAttempts\<close> successive candidates collided
  with the earlier placements.\<close>

definition placedWell :: "Rng \<Rightarrow> nat \<Rightarrow> Placement list \<Rightarrow> bool" where
  "placedWell rnd n_count data \<longleftrightarrow>
     (\<forall>j < length data.
        (valid (data ! j) \<longrightarrow>
           (\<forall>i < j. minDistance \<le> distanceTo (treePos (data ! i)) (treePos (data ! j)))
           \<and> (\<exists>k a. a < maxAttempts
                 \<and> treePos (data ! j) = candidateAt rnd (k + 3 * a)
                 \<and> \<not> collision (candidateAt rnd (k + 3 * a)) (take j data)
                 \<and> (\<forall>b < a. collision (candidateAt rnd (k + 3 * b)) (take j data))))
        \<and> (\<not> valid (data ! j) \<longrightarrow>
             treePos (data ! j) = getSpiralPos j n_count
             \<and> (\<exists>k. \<forall>a < maxAttempts. collision (candidateAt rnd (k + 3 * a)) (take j data))))"

section \<open>Example inputs\<close>

text \<open>A star particle at height 15, above the fixed threshold 14 of the star branch, and
  a ribbon particle at height 5.\<close>

definition starExample :: ParticleData where
  "starExample = \<lparr>pid = 7900, treePosition = vec3 0 15 0, explodePosition = vec3 0 0 0,
      rotation = (0, 0, 0), pscale = 0.16, color = Some (HexColor ''#fbbf24''),
      ptype = STAR_PARTICLE\<rparr>"

definition ribbonExample :: ParticleData where
  "ribbonExample = \<lparr>pid = 6800, treePosition = vec3 4 5 0, explodePosition = vec3 0 30 0,
      rotation = (0, 0, 0), pscale = 0.1, color = Some (HexColor ''#ffffdd''),
      ptype = RIBBON\<rparr>"

text \<open>A leaf whose explode position is \<open>0.01\<close> away from its tree position.\<close>

definition leafExample :: ParticleData where
  "leafExample = \<lparr>pid = 0, treePosition = vec3 0 0 0, explodePosition = vec3 0.01 0 0,
      rotation = (0, 0, 0), pscale = 0.2, color = None, ptype = LEAF\<rparr>"

text \<open>Draws under which, of three photos, the first is placed by its first attempt, the
  second by its second attempt, and the third by the fallback.\<close>

definition drawsExample :: Rng where
  "drawsExample = (\<lambda>n. if n = 13 then 1/2 else 0)"

section \<open>Properties of the carousel\<close>

lemma js_rem_abs_less:
  assumes "0 < b"
  shows "\<bar>js_rem a b\<bar> < b"
proof -
  define q where "q = a / b"
  have a: "a = b * q" using assms by (simp add: q_def)
  show ?thesis
  proof (cases "0 \<le> q")
    case True
    have "q - 1 < of_int \<lfloor>q\<rfloor>" "of_int \<lfloor>q\<rfloor> \<le> q"
      by linarith+
    then have "b * (q - 1) < b * of_int \<lfloor>q\<rfloor>" "b * of_int \<lfloor>q\<rfloor> \<le> b * q"
      using assms by (simp_all add: mult_left_mono)
    then show ?thesis
      using True a by (simp add: js_rem_def js_trunc_def q_def[symmetric] algebra_simps)
  next
    case False
    have "q \<le> of_int \<lceil>q\<rceil>" "of_int \<lceil>q\<rceil> < q + 1"
      by linarith+
    then have "b * q \<le> b * of_int \<lceil>q\<rceil>" "b * of_int \<lceil>q\<rceil> < b * (q + 1)"
      using assms by (simp_all add: mult_left_mono)
    then show ?thesis
      using False a by (simp add: js_rem_def js_trunc_def q_def[symmetric] algebra_simps)
  qed
qed

lemma ease_low_mono:
  assumes "0 \<le> x" "x \<le> y"
  shows "4 * x * x * x \<le> 4 * y * y * (y::real)"
proof -
  have "x ^ 3 \<le> y ^ 3" using assms by (rule power_mono[OF _ _, rotated])
  then show ?thesis by (simp add: power3_eq_cube algebra_simps)
qed

text \<open>C10: \<^verbatim>\<open>easeInOutCubic\<close> fixes 0 and 1, its two branches agree at \<open>x = 0.5\<close>
  (both are \<open>0.5\<close> there), it is monotonically non-decreasing on \<open>[0, 1]\<close>, and it maps
  \<open>[0, 1]\<close> into \<open>[0, 1]\<close>.\<close>

theorem easeInOutCubic_properties:
  "easeInOutCubic 0 = 0 \<and> easeInOutCubic 1 = 1
   \<and> 4 * (0.5::real) * 0.5 * 0.5 = 0.5 \<and> 1 - (-2 * (0.5::real) + 2) ^ 3 / 2 = 0.5
   \<and> easeInOutCubic 0.5 = 0.5
   \<and> (\<forall>x y. 0 \<le> x \<and> x \<le> y \<and> y \<le> 1 \<longrightarrow> easeInOutCubic x \<le> easeInOutCubic y)
   \<and> (\<forall>x. 0 \<le> x \<and> x \<le> 1 \<longrightarrow> 0 \<le> easeInOutCubic x \<and> easeInOutCubic x \<le> 1)"
proof -
  have b0: "easeInOutCubic 0 = 0" and b1: "easeInOutCubic 1 = 1"
    and bh: "easeInOutCubic 0.5 = 0.5"
    by (simp_all add: easeInOutCubic_def power3_eq_cube)
  have mono: "easeInOutCubic x \<le> easeInOutCubic y" if "0 \<le> x" "x \<le> y" "y \<le> 1" for x y
  proof -
    consider "y < 0.5" | "x < 0.5" "0.5 \<le> y" | "0.5 \<le> x" by linarith
    then show ?thesis
    proof cases
      case 1
      then show ?thesis using that ease_low_mono[of x y] by (simp add: easeInOutCubic_def)
    next
      case 2
      have "4 * x * x * x \<le> 4 * (0.5::real) * 0.5 * 0.5"
        using that 2 by (intro ease_low_mono) simp_all
      moreover have "(-2 * y + 2) ^ 3 \<le> 1 ^ 3"
        using that 2 by (intro power_mono) simp_all
      ultimately show ?thesis using 2 by (simp add: easeInOutCubic_def)
    next
      case 3
      have "(-2 * y + 2) ^ 3 \<le> (-2 * x + 2) ^ 3"
        using that 3 by (intro power_mono) simp_all
      then show ?thesis using that 3 by (simp add: easeInOutCubic_def)
    qed
  qed
  have range: "0 \<le> easeInOutCubic x \<and> easeInOutCubic x \<le> 1" if "0 \<le> x" "x \<le> 1" for x
    using mono[of 0 x] mono[of x 1] that by (simp add: b0 b1)
  show ?thesis
    using b0 b1 bh mono range by (simp add: power3_eq_cube)
qed

theorem easeInOutCubic_properties_witness:
  "(0::real) \<le> 1/4 \<and> (1/4::real) \<le> 3/4 \<and> (3/4::real) \<le> 1
   \<and> easeInOutCubic (1/4) \<le> easeInOutCubic (3/4)
   \<and> 0 \<le> easeInOutCubic (3/4) \<and> easeInOutCubic (3/4) \<le> 1"
proof -
  have "easeInOutCubic (1/4) \<le> easeInOutCubic (3/4)"
    using easeInOutCubic_properties by simp
  moreover have "0 \<le> easeInOutCubic (3/4) \<and> easeInOutCubic (3/4) \<le> 1"
    using easeInOutCubic_properties by simp
  ultimately show ?thesis by simp
qed

text \<open>C8: for every slot position, scroll offset and positive total width, the wrapped
  horizontal offset lies in \<open>[-totalWidth/2, +totalWidth/2]\<close>, also when the remainder
  is negative.\<close>

theorem wrapX_in_range:
  assumes "0 < totalWidth"
  shows "- totalWidth / 2 \<le> wrapX baseX currentScrollOffset totalWidth
         \<and> wrapX baseX currentScrollOffset totalWidth \<le> totalWidth / 2"
proof -
  have "\<bar>js_rem (baseX - currentScrollOffset) totalWidth\<bar> < totalWidth"
    using assms by (rule js_rem_abs_less)
  then show ?thesis
    using assms by (auto simp: wrapX_def Let_def)
qed

theorem wrapX_in_range_witness:
  "(0::real) < 10 \<and> js_rem (0 - 7) 10 = -7 \<and> wrapX 0 7 10 = 3
   \<and> - 10 / 2 \<le> wrapX 0 7 10 \<and> wrapX 0 7 10 \<le> 10 / 2"
proof -
  have r: "js_rem (0 - 7) 10 = -7"
    by (simp add: js_rem_def js_trunc_def)
  have "wrapX 0 7 10 = 3"
    using r by (simp add: wrapX_def Let_def)
  then show ?thesis
    using r wrapX_in_range[of 10 0 7] by simp
qed

subsection \<open>The step calculation in binary64\<close>

lemma binade_eq:
  assumes "2 powi e \<le> \<bar>x\<bar>" "\<bar>x\<bar> < 2 powi (e + 1)"
  shows "binade x = e"
proof -
  have "(0::real) < 2 powi e"
    by (rule zero_less_power_int) simp
  then have pos: "0 < \<bar>x\<bar>"
    using assms(1) by linarith
  have p: "(2::real) powr real_of_int n = 2 powi n" for n
    by (rule powr_real_of_int') simp_all
  have "of_int e \<le> log 2 \<bar>x\<bar>"
    using assms(1) pos by (simp add: le_log_iff p)
  moreover have "log 2 \<bar>x\<bar> < of_int (e + 1)"
    using assms(2) pos by (simp only: log_less_iff[of 2, OF _ pos] p)
  ultimately show ?thesis
    unfolding binade_def by (intro floor_unique) simp_all
qed

lemma rne_near:
  assumes "of_int m - 1/2 < v" "v < of_int m + 1/2"
  shows "rne v = m"
proof (cases "of_int m \<le> v")
  case True
  then have "\<lfloor>v\<rfloor> = m" using assms(2) by (intro floor_unique) simp_all
  then show ?thesis using assms(2) by (simp add: rne_def Let_def)
next
  case False
  then have "\<lfloor>v\<rfloor> = m - 1" using assms(1) by (intro floor_unique) simp_all
  then show ?thesis using assms(1) False by (simp add: rne_def Let_def)
qed

lemma round64_eval:
  assumes "2 powi e \<le> \<bar>x\<bar>" "\<bar>x\<bar> < 2 powi (e + 1)"
    and "of_int m - 1/2 < x * 2 powi (52 - e)" "x * 2 powi (52 - e) < of_int m + 1/2"
  shows "round64 x = of_int m * 2 powi (e - 52)"
proof -
  have "(0::real) < 2 powi e"
    by (rule zero_less_power_int) simp
  then have "0 < \<bar>x\<bar>" using assms(1) by linarith
  then have "x \<noteq> 0" by simp
  then show ?thesis
    unfolding round64_def binade_eq[OF assms(1,2)] rne_near[OF assms(3,4)] by simp
qed

lemma HOLD_val: "HOLD_DURATION = 1"
  unfolding HOLD_DURATION_def using round64_eval[of 0 1 4503599627370496] by simp

lemma MOVE_val: "MOVE_DURATION = 3602879701896397 / 4503599627370496"
  unfolding MOVE_DURATION_def using round64_eval[of "-1" "0.8" 7205759403792794] by simp

lemma CYCLE_val: "CYCLE_DURATION = 8106479329266893 / 4503599627370496"
  unfolding CYCLE_DURATION_def HOLD_val MOVE_val
  using round64_eval[of 0 "1 + 3602879701896397 / 4503599627370496" 8106479329266893] by simp


lemma ease64_near_one:
  "easeInOutCubic64 (4503599627370495 / 4503599627370496) = 1"
proof -
  let ?x = "4503599627370495 / 4503599627370496 :: real"
  have a: "round64 (-2 * ?x) = -2 * ?x"
    using round64_eval[of 0 "-2 * ?x" "-9007199254740990"] by simp
  have b: "round64 (-2 * ?x + 2) = 2 powi (-51)"
    using round64_eval[of "-51" "-2 * ?x + 2" 4503599627370496] by simp
  have c: "round64 ((2 powi (-51)) ^ 3) = 2 powi (-153)"
    using round64_eval[of "-153" "(2 powi (-51)) ^ 3" 4503599627370496]
    by (simp add: power_divide)
  have d: "round64 (2 powi (-153) / 2) = 2 powi (-154)"
    using round64_eval[of "-154" "2 powi (-153) / 2" 4503599627370496] by simp
  have e: "round64 (1 - 2 powi (-154)) = 1"
    using round64_eval[of "-1" "1 - 2 powi (-154)" 9007199254740992] by simp
  have "\<not> ?x < 0.5" by simp
  then show ?thesis
    unfolding easeInOutCubic64_def a b c d e by simp
qed

text \<open>C7 fails on the code at whole multiples of the cycle. The clock time 9 is
  \<open>0 + 5 * CYCLE_DURATION\<close> as binary64 computes it. There the rounded quotient gives the
  cycle index 5, while the remainder \<open>9 - 4 * CYCLE_DURATION\<close> is still in the MOVE phase
  of cycle 4: the eased offset 1 is added to 5, and the scroll index is 6, where the scroll
  index at time 0 plus 5 is 5.\<close>

theorem scrollIndex_cycle_boundary:
  "CYCLE_DURATION = 8106479329266893 / 4503599627370496
   \<and> round64 (0 + round64 (5 * CYCLE_DURATION)) = 9
   \<and> cycleIndex 9 = 5
   \<and> cyclePhase 9 = 9 - 4 * CYCLE_DURATION
   \<and> HOLD_DURATION < cyclePhase 9
   \<and> scrollIndex 0 = 0
   \<and> scrollIndex 9 = 6
   \<and> scrollIndex (round64 (0 + round64 (5 * CYCLE_DURATION))) \<noteq> scrollIndex 0 + 5"
proof -
  let ?c = "8106479329266893 / 4503599627370496 :: real"
  have five: "round64 (5 * CYCLE_DURATION) = 9"
    unfolding CYCLE_val using round64_eval[of 3 "5 * ?c" 5066549580791808] by simp
  have nine: "round64 (0 + 9) = 9"
    using round64_eval[of 3 "0 + 9" 5066549580791808] by simp
  have quot: "round64 (9 / CYCLE_DURATION) = 5"
    unfolding CYCLE_val using round64_eval[of 2 "9 / ?c" 5629499534213120] by simp
  have ci: "cycleIndex 9 = 5"
    unfolding cycleIndex_def quot by simp
  have ph: "cyclePhase 9 = 9 - 4 * CYCLE_DURATION"
    unfolding cyclePhase_def js_rem_def js_trunc_def CYCLE_val by simp
  have hold: "HOLD_DURATION < cyclePhase 9"
    unfolding ph HOLD_val CYCLE_val by simp
  have sub: "round64 (cyclePhase 9 - HOLD_DURATION) = 3602879701896396 / 4503599627370496"
    unfolding ph HOLD_val CYCLE_val
    using round64_eval[of "-1" "9 - 4 * ?c - 1" 7205759403792792] by simp
  have mp: "round64 (3602879701896396 / 4503599627370496 / MOVE_DURATION)
            = 4503599627370495 / 4503599627370496"
    unfolding MOVE_val
    using round64_eval[of "-1" "3602879701896396 / 4503599627370496
                                 / (3602879701896397 / 4503599627370496)" 9007199254740990]
    by simp
  have six: "round64 (of_int 5 + 1) = 6"
    using round64_eval[of 2 "of_int 5 + 1" 6755399441055744] by simp
  have s9: "scrollIndex 9 = 6"
    unfolding scrollIndex_def using hold by (simp only: if_True ci sub mp ease64_near_one six)
  have "cyclePhase 0 = 0"
    by (simp add: cyclePhase_def js_rem_def js_trunc_def)
  moreover have "cycleIndex 0 = 0"
    by (simp add: cycleIndex_def round64_def)
  ultimately have s0: "scrollIndex 0 = 0"
    by (simp add: scrollIndex_def HOLD_val)
  have t: "round64 (0 + round64 (5 * CYCLE_DURATION)) = 9"
    unfolding five nine ..
  have "scrollIndex (round64 (0 + round64 (5 * CYCLE_DURATION))) \<noteq> scrollIndex 0 + 5"
    unfolding t s9 s0 by simp
  then show ?thesis
    using CYCLE_val t ci ph hold s0 s9 by (intro conjI) assumption+
qed

section \<open>Properties of the particle animator\<close>

lemma distanceTo_self: "distanceTo a a = 0"
  by (simp add: distanceTo_def)

lemma lerp_self: "lerp a a alpha = a"
  by (simp add: lerp_def vec3_def)

lemma osc_lower: "0.7 \<le> 1 + 0.3 * sin (u::real)"
  using sin_ge_minus_one[of u] by linarith

lemma ribbon_osc_lower: "0.4 \<le> 0.8 + 0.4 * sin (u::real)"
  using sin_ge_minus_one[of u] by linarith

lemma animate_fst:
  "fst (animateParticle ty speed st time ts delta p cur)
   = lerp cur (behaviorTarget (ty = RIBBON) (ty = STAR_PARTICLE) (st = TREE) time p)
       (particleLerp ty speed st time ts delta p)"
  by (simp add: animateParticle_def Let_def)

lemma animate_snd:
  "snd (animateParticle ty speed st time ts delta p cur)
   = hideStreaks (ty = RIBBON) (ty = STAR_PARTICLE) (st = TREE)
       (fst (animateParticle ty speed st time ts delta p cur)) p
       (behaviorScale (ty = RIBBON) (ty = STAR_PARTICLE) (ty = ORNAMENT) (st = TREE) time
          (currentWaveHeight (time - ts)) p)"
  by (simp add: animateParticle_def Let_def)

lemma behaviorTarget_wave:
  "isRibbon \<or> isStar \<Longrightarrow>
   behaviorTarget isRibbon isStar targetIsTree time p
   = (if targetIsTree then treePosition p else explodePosition p)"
  by (simp add: behaviorTarget_def)

text \<open>C1 as stated fails for star particles: at wave height \<open>14.9\<close> the star particle of
  height 15, resting at its tree position, is emitted with a scale above \<open>0.02\<close> although
  the wave has not passed its height.\<close>

theorem star_reveal_counterexample:
  "\<not> vy (treePosition starExample) < currentWaveHeight (1.495 - 0)
   \<and> \<not> nearZero (snd (animateParticle STAR_PARTICLE 3 TREE 1.495 0 (1/60) starExample
                         (treePosition starExample)))"
proof -
  let ?out = "animateParticle STAR_PARTICLE 3 TREE 1.495 0 (1/60) starExample
                (treePosition starExample)"
  have w: "currentWaveHeight (1.495 - 0) = 14.9"
    by (simp add: currentWaveHeight_def waveStartOffset_def waveSpeed_def)
  have pos: "fst ?out = treePosition starExample"
    by (simp add: animate_fst behaviorTarget_wave lerp_self)
  have "snd ?out = behaviorScale False True False True 1.495 14.9 starExample"
    unfolding animate_snd pos w by (simp add: hideStreaks_def distanceTo_self)
  also have "\<dots> = 0.16 * 0.18 * (1 + 0.3 * sin (1.495 * 5 + of_int 7900))"
    by (simp add: behaviorScale_def starExample_def)
  finally have "0.16 * 0.18 * 0.7 \<le> snd ?out"
    using osc_lower[of "1.495 * 5 + of_int 7900"] by simp
  then have "\<not> nearZero (snd ?out)"
    by (simp add: nearZero_def)
  moreover have "\<not> vy (treePosition starExample) < currentWaveHeight (1.495 - 0)"
    unfolding w by (simp add: starExample_def vec3_def)
  ultimately show ?thesis by blast
qed


lemma hideStreaks_cases:
  "hideStreaks r s t v p sc = 0.01 \<or> hideStreaks r s t v p sc = sc"
  by (simp add: hideStreaks_def)

text \<open>C1, as amended: in tree mode a ribbon particle is emitted with the hidden scale
  \<open>0.01\<close> as long as the wave height has not passed the particle's own tree height, and
  with a scale that is not near-zero only once the wave has passed that height. A star
  particle is emitted with a hidden scale (\<open>0.001\<close>, or \<open>0.01\<close> from the streak rule) as
  long as the wave height has not exceeded the fixed threshold \<open>14.0\<close>, and with a scale that
  is not near-zero only once the wave height exceeds \<open>14.0\<close>, whatever the particle's own
  height. For a positive base scale every emitted scale is positive.\<close>

theorem reveal_wave_scale:
  "(\<not> vy (treePosition p) < currentWaveHeight (time - ts)
      \<longrightarrow> snd (animateParticle RIBBON speed TREE time ts delta p cur) = 0.01)
   \<and> (\<not> nearZero (snd (animateParticle RIBBON speed TREE time ts delta p cur))
      \<longrightarrow> vy (treePosition p) < currentWaveHeight (time - ts))
   \<and> (0 < pscale p \<longrightarrow> 0 < snd (animateParticle RIBBON speed TREE time ts delta p cur))
   \<and> (\<not> currentWaveHeight (time - ts) > 14
      \<longrightarrow> snd (animateParticle STAR_PARTICLE speed TREE time ts delta q cur) = 0.001
        \<or> snd (animateParticle STAR_PARTICLE speed TREE time ts delta q cur) = 0.01)
   \<and> (\<not> nearZero (snd (animateParticle STAR_PARTICLE speed TREE time ts delta q cur))
      \<longrightarrow> currentWaveHeight (time - ts) > 14)
   \<and> (0 < pscale q \<longrightarrow> 0 < snd (animateParticle STAR_PARTICLE speed TREE time ts delta q cur))"
proof -
  let ?w = "currentWaveHeight (time - ts)"
  let ?rb = "behaviorScale True False False True time ?w p"
  let ?sb = "behaviorScale False True False True time ?w q"
  let ?r = "snd (animateParticle RIBBON speed TREE time ts delta p cur)"
  let ?s = "snd (animateParticle STAR_PARTICLE speed TREE time ts delta q cur)"
  have r: "?r = 0.01 \<or> ?r = ?rb"
    using hideStreaks_cases[of True False True _ p ?rb] by (simp add: animate_snd)
  have s: "?s = 0.01 \<or> ?s = ?sb"
    using hideStreaks_cases[of False True True _ q ?sb] by (simp add: animate_snd)
  have rb_hidden: "?rb = 0.01" if "\<not> vy (treePosition p) < ?w"
    using that by (simp add: behaviorScale_def)
  have sb_hidden: "?sb = 0.001" if "\<not> ?w > 14"
    using that by (simp add: behaviorScale_def)
  have rb_pos: "0 < ?rb" if "0 < pscale p"
  proof (cases "vy (treePosition p) < ?w")
    case True
    have "0 < pscale p * (0.8 + 0.4 * sin (time * 3 + (vy (treePosition p) + 12.5) / 25 * 10))"
      using that ribbon_osc_lower[of "time * 3 + (vy (treePosition p) + 12.5) / 25 * 10"]
      by (intro mult_pos_pos) simp_all
    then show ?thesis using True by (simp add: behaviorScale_def Let_def)
  next
    case False
    then show ?thesis by (simp add: behaviorScale_def)
  qed
  have sb_pos: "0 < ?sb" if "0 < pscale q"
  proof (cases "?w > 14")
    case True
    have "0 < min 1 ((?w - 14) / 5)" using True by simp
    then have "0 < pscale q * min 1 ((?w - 14) / 5) * (1 + 0.3 * sin (time * 5 + of_int (pid q)))"
      using that osc_lower[of "time * 5 + of_int (pid q)"]
      by (intro mult_pos_pos) simp_all
    then show ?thesis using True by (simp add: behaviorScale_def Let_def)
  next
    case False
    then show ?thesis by (simp add: behaviorScale_def)
  qed
  have c1: "\<not> vy (treePosition p) < ?w \<longrightarrow> ?r = 0.01"
    using r rb_hidden by auto
  have c2: "\<not> nearZero ?r \<longrightarrow> vy (treePosition p) < ?w"
    using c1 by (auto simp: nearZero_def)
  have c3: "0 < pscale p \<longrightarrow> 0 < ?r"
    using r rb_pos by auto
  have c4: "\<not> ?w > 14 \<longrightarrow> ?s = 0.001 \<or> ?s = 0.01"
    using s sb_hidden by auto
  have c5: "\<not> nearZero ?s \<longrightarrow> ?w > 14"
    using c4 by (auto simp: nearZero_def)
  have c6: "0 < pscale q \<longrightarrow> 0 < ?s"
    using s sb_pos by auto
  show ?thesis
    using c1 c2 c3 c4 c5 c6 by blast
qed


lemma ribbon_example_visible:
  "0.04 \<le> snd (animateParticle RIBBON speed TREE 2 0 delta ribbonExample (treePosition ribbonExample))"
proof -
  let ?out = "animateParticle RIBBON speed TREE 2 0 delta ribbonExample (treePosition ribbonExample)"
  have w: "currentWaveHeight (2 - 0) = 25"
    by (simp add: currentWaveHeight_def waveStartOffset_def waveSpeed_def)
  have pos: "fst ?out = treePosition ribbonExample"
    by (simp add: animate_fst behaviorTarget_wave lerp_self)
  have "snd ?out = behaviorScale True False False True 2 25 ribbonExample"
    unfolding animate_snd pos w by (simp add: hideStreaks_def distanceTo_self)
  also have "\<dots> = 0.1 * (0.8 + 0.4 * sin (2 * 3 + (5 + 12.5) / 25 * 10))"
    by (simp add: behaviorScale_def ribbonExample_def vec3_def)
  finally show ?thesis
    using ribbon_osc_lower[of "2 * 3 + (5 + 12.5) / 25 * 10"] by simp
qed

lemma star_example_visible:
  "0.02 \<le> snd (animateParticle STAR_PARTICLE speed TREE 1.495 0 delta starExample
                   (treePosition starExample))"
proof -
  let ?out = "animateParticle STAR_PARTICLE speed TREE 1.495 0 delta starExample
                (treePosition starExample)"
  have w: "currentWaveHeight (1.495 - 0) = 14.9"
    by (simp add: currentWaveHeight_def waveStartOffset_def waveSpeed_def)
  have pos: "fst ?out = treePosition starExample"
    by (simp add: animate_fst behaviorTarget_wave lerp_self)
  have "snd ?out = behaviorScale False True False True 1.495 14.9 starExample"
    unfolding animate_snd pos w by (simp add: hideStreaks_def distanceTo_self)
  also have "\<dots> = 0.16 * 0.18 * (1 + 0.3 * sin (1.495 * 5 + of_int 7900))"
    by (simp add: behaviorScale_def starExample_def)
  finally show ?thesis
    using osc_lower[of "1.495 * 5 + of_int 7900"] by simp
qed

theorem reveal_wave_scale_witness:
  "\<not> vy (treePosition ribbonExample) < currentWaveHeight (0.5 - 0)
   \<and> snd (animateParticle RIBBON 2.5 TREE 0.5 0 (1/60) ribbonExample
            (explodePosition ribbonExample)) = 0.01
   \<and> \<not> nearZero (snd (animateParticle RIBBON 2.5 TREE 2 0 (1/60) ribbonExample
            (treePosition ribbonExample)))
   \<and> vy (treePosition ribbonExample) < currentWaveHeight (2 - 0)
   \<and> \<not> currentWaveHeight (0.5 - 0) > 14
   \<and> nearZero (snd (animateParticle STAR_PARTICLE 2.5 TREE 0.5 0 (1/60) starExample
            (explodePosition ribbonExample)))
   \<and> \<not> nearZero (snd (animateParticle STAR_PARTICLE 3 TREE 1.495 0 (1/60) starExample
            (treePosition starExample)))
   \<and> currentWaveHeight (1.495 - 0) > 14
   \<and> 0 < pscale ribbonExample \<and> 0 < pscale starExample
   \<and> 0 < snd (animateParticle RIBBON 2.5 TREE 0.5 0 (1/60) ribbonExample
            (explodePosition ribbonExample))
   \<and> 0 < snd (animateParticle STAR_PARTICLE 2.5 TREE 0.5 0 (1/60) starExample
            (explodePosition ribbonExample))"
proof -
  have w1: "currentWaveHeight (0.5 - 0) = -5"
    by (simp add: currentWaveHeight_def waveStartOffset_def waveSpeed_def)
  have h1: "\<not> vy (treePosition ribbonExample) < currentWaveHeight (0.5 - 0)"
    unfolding w1 by (simp add: ribbonExample_def vec3_def)
  have h2: "\<not> currentWaveHeight (0.5 - 0) > 14"
    unfolding w1 by simp
  have h3: "\<not> nearZero (snd (animateParticle RIBBON 2.5 TREE 2 0 (1/60) ribbonExample
            (treePosition ribbonExample)))"
    using ribbon_example_visible[of "2.5" "1/60"] by (simp add: nearZero_def)
  have h4: "\<not> nearZero (snd (animateParticle STAR_PARTICLE 3 TREE 1.495 0 (1/60) starExample
            (treePosition starExample)))"
    using star_example_visible[of 3 "1/60"] by (simp add: nearZero_def)
  have h5: "0 < pscale ribbonExample" "0 < pscale starExample"
    by (simp_all add: ribbonExample_def starExample_def)
  note a = reveal_wave_scale[of ribbonExample "0.5" 0 "2.5" "1/60" "explodePosition ribbonExample"
      starExample]
  note b = reveal_wave_scale[of ribbonExample 2 0 "2.5" "1/60" "treePosition ribbonExample" starExample]
  note c = reveal_wave_scale[of ribbonExample "1.495" 0 3 "1/60" "treePosition starExample"
      starExample]
  have g1: "snd (animateParticle RIBBON 2.5 TREE 0.5 0 (1/60) ribbonExample
            (explodePosition ribbonExample)) = 0.01"
    using a h1 by blast
  have g2: "vy (treePosition ribbonExample) < currentWaveHeight (2 - 0)"
    using b h3 by blast
  have "snd (animateParticle STAR_PARTICLE 2.5 TREE 0.5 0 (1/60) starExample
            (explodePosition ribbonExample)) = 0.001
        \<or> snd (animateParticle STAR_PARTICLE 2.5 TREE 0.5 0 (1/60) starExample
            (explodePosition ribbonExample)) = 0.01"
    using a h2 by blast
  then have g3: "nearZero (snd (animateParticle STAR_PARTICLE 2.5 TREE 0.5 0 (1/60) starExample
            (explodePosition ribbonExample)))"
    unfolding nearZero_def by auto
  have g4: "currentWaveHeight (1.495 - 0) > 14"
    using c h4 by blast
  have g5: "0 < snd (animateParticle RIBBON 2.5 TREE 0.5 0 (1/60) ribbonExample
            (explodePosition ribbonExample))"
    using a h5 by blast
  have g6: "0 < snd (animateParticle STAR_PARTICLE 2.5 TREE 0.5 0 (1/60) starExample
            (explodePosition ribbonExample))"
    using a h5 by blast
  show ?thesis
    using h1 h2 h3 h4 h5 g1 g2 g3 g4 g5 g6 by blast
qed

text \<open>C3 as stated fails for star particles: their interpolation factor stays the
  delta-scaled base factor, below the wave (\<open>0.3\<close> and \<open>0.6\<close> for deltas \<open>0.1\<close> and
  \<open>0.2\<close>) as well as above it.\<close>

theorem star_lerp_counterexample:
  "vy (treePosition starExample) < currentWaveHeight (2 - 0)
   \<and> particleLerp STAR_PARTICLE 3 TREE 2 0 0.1 starExample = 0.3
   \<and> particleLerp STAR_PARTICLE 3 TREE 2 0 0.2 starExample = 0.6
   \<and> \<not> currentWaveHeight (0.5 - 0) > vy (treePosition starExample)
   \<and> particleLerp STAR_PARTICLE 3 TREE 0.5 0 0.1 starExample = 0.3
   \<and> particleLerp STAR_PARTICLE 3 TREE 0.5 0 0.2 starExample = 0.6"
  by (simp add: particleLerp_def activeLerp_def clamp_def currentWaveHeight_def
        waveStartOffset_def waveSpeed_def starExample_def vec3_def)

text \<open>C3, as amended: in tree mode the interpolation factor of a ribbon particle is
  overridden to the constant \<open>0.2\<close> when the particle's tree height lies below the wave
  height and to \<open>0.05\<close> otherwise; a star particle keeps the base factor
  \<open>clamp (delta * animationSpeed) 0 1\<close>. Both move the running position towards the tree
  position by that factor.\<close>

theorem active_lerp_override:
  "particleLerp RIBBON speed TREE time ts delta p
     = (if vy (treePosition p) < currentWaveHeight (time - ts) then 0.2 else 0.05)
   \<and> particleLerp STAR_PARTICLE speed TREE time ts delta p = clamp (delta * speed) 0 1
   \<and> fst (animateParticle RIBBON speed TREE time ts delta p cur)
     = lerp cur (treePosition p) (particleLerp RIBBON speed TREE time ts delta p)
   \<and> fst (animateParticle STAR_PARTICLE speed TREE time ts delta p cur)
     = lerp cur (treePosition p) (particleLerp STAR_PARTICLE speed TREE time ts delta p)"
  by (simp add: animate_fst behaviorTarget_wave particleLerp_def activeLerp_def)

theorem active_lerp_override_witness:
  "vy (treePosition ribbonExample) < currentWaveHeight (2 - 0)
   \<and> particleLerp RIBBON 2.5 TREE 2 0 (1/60) ribbonExample = 0.2
   \<and> \<not> vy (treePosition ribbonExample) < currentWaveHeight (0.5 - 0)
   \<and> particleLerp RIBBON 2.5 TREE 0.5 0 (1/60) ribbonExample = 0.05"
proof -
  have "vy (treePosition ribbonExample) < currentWaveHeight (2 - 0)"
    "\<not> vy (treePosition ribbonExample) < currentWaveHeight (0.5 - 0)"
    by (simp_all add: currentWaveHeight_def waveStartOffset_def waveSpeed_def ribbonExample_def
          vec3_def)
  then show ?thesis
    using active_lerp_override[of "2.5" 2 0 "1/60" ribbonExample]
      active_lerp_override[of "2.5" "0.5" 0 "1/60" ribbonExample]
    by simp
qed

text \<open>C4: with wave start \<open>-15\<close> and wave speed \<open>20\<close>, the wave reaches height 5 at
  \<open>(5 - (-15)) / 20 = 1\<close> second after the mode change. A ribbon or star particle of tree
  height 5 is held at a near-zero scale (a ribbon particle at exactly \<open>0.01\<close>) for every
  smaller time since the transition, and for every larger time the wave has passed its
  height.\<close>

theorem reveal_timing_height_5:
  assumes "vy (treePosition p) = 5" and "ty = RIBBON \<or> ty = STAR_PARTICLE"
  shows "waveStartOffset = -15 \<and> waveSpeed = 20 \<and> (5 - (-15)) / 20 = (1::real)
    \<and> currentWaveHeight 1 = 5
    \<and> (time - ts < 1 \<longrightarrow>
          \<not> vy (treePosition p) < currentWaveHeight (time - ts)
          \<and> nearZero (snd (animateParticle ty speed TREE time ts delta p cur))
          \<and> (ty = RIBBON \<longrightarrow> snd (animateParticle ty speed TREE time ts delta p cur) = 0.01))
    \<and> (time - ts > 1 \<longrightarrow> vy (treePosition p) < currentWaveHeight (time - ts))"
proof -
  let ?w = "currentWaveHeight (time - ts)"
  let ?out = "snd (animateParticle ty speed TREE time ts delta p cur)"
  have cst: "waveStartOffset = -15 \<and> waveSpeed = 20 \<and> currentWaveHeight 1 = 5"
    by (simp add: currentWaveHeight_def waveStartOffset_def waveSpeed_def)
  have before: "\<not> vy (treePosition p) < ?w \<and> nearZero ?out \<and> (ty = RIBBON \<longrightarrow> ?out = 0.01)"
    if "time - ts < 1"
  proof -
    have w: "?w < 5"
      using that by (simp add: currentWaveHeight_def waveStartOffset_def waveSpeed_def)
    have base: "behaviorScale (ty = RIBBON) (ty = STAR_PARTICLE) (ty = ORNAMENT) True time ?w p
                = (if ty = RIBBON then 0.01 else 0.001)"
      using assms w by (auto simp: behaviorScale_def)
    have "?out = 0.01 \<or> ?out = (if ty = RIBBON then 0.01 else 0.001)"
      using hideStreaks_cases[of "ty = RIBBON" "ty = STAR_PARTICLE" True _ p] base
      by (simp add: animate_snd)
    then show ?thesis
      using w assms by (auto simp: nearZero_def)
  qed
  have after: "vy (treePosition p) < ?w" if "time - ts > 1"
    using that assms by (simp add: currentWaveHeight_def waveStartOffset_def waveSpeed_def)
  show ?thesis
    using cst before after by simp
qed

theorem reveal_timing_height_5_witness:
  "vy (treePosition ribbonExample) = 5
   \<and> (1/2::real) - 0 < 1
   \<and> snd (animateParticle RIBBON 2.5 TREE (1/2) 0 (1/60) ribbonExample
            (explodePosition ribbonExample)) = 0.01
   \<and> (2::real) - 0 > 1
   \<and> vy (treePosition ribbonExample) < currentWaveHeight (2 - 0)"
proof -
  have y: "vy (treePosition ribbonExample) = 5"
    by (simp add: ribbonExample_def vec3_def)
  show ?thesis
    using y reveal_timing_height_5[OF y, of RIBBON "1/2" 0 "2.5" "1/60" "explodePosition ribbonExample"]
      reveal_timing_height_5[OF y, of RIBBON 2 0 "2.5" "1/60" "explodePosition ribbonExample"]
    by simp
qed

section \<open>Sessions of frames\<close>

lemma lerp_distance:
  "distanceTo (lerp a v alpha) v = \<bar>1 - alpha\<bar> * distanceTo a v"
proof -
  have "(vx a + (vx v - vx a) * alpha - vx v)\<^sup>2 + (vy a + (vy v - vy a) * alpha - vy v)\<^sup>2
        + (vz a + (vz v - vz a) * alpha - vz v)\<^sup>2
        = (1 - alpha)\<^sup>2 * ((vx a - vx v)\<^sup>2 + (vy a - vy v)\<^sup>2 + (vz a - vz v)\<^sup>2)"
    by (simp add: power2_eq_square algebra_simps)
  then show ?thesis
    by (simp add: distanceTo_def lerp_def vec3_def real_sqrt_mult)
qed

lemma distanceTo_nonneg: "0 \<le> distanceTo a v"
  by (simp add: distanceTo_def)

lemma clamp01: "0 \<le> clamp v 0 1 \<and> clamp v 0 1 \<le> 1"
  by (simp add: clamp_def)

lemma particleLerp_unit:
  "0 \<le> particleLerp ty speed st time ts delta p \<and> particleLerp ty speed st time ts delta p \<le> 1"
  using clamp01[of "delta * speed"] by (simp add: particleLerp_def activeLerp_def Let_def)

lemma useFrame_state:
  "lastState (fst (useFrame data speed app time delta st)) = app"
  "transitionStartTime (fst (useFrame data speed app time delta st))
     = (if app \<noteq> lastState st then time else transitionStartTime st)"
  "length (currentPositions (fst (useFrame data speed app time delta st)))
     = min (length data) (length (currentPositions st))"
  "length (snd (useFrame data speed app time delta st))
     = min (length data) (length (currentPositions st))"
  by (simp_all add: useFrame_def Let_def)

lemma useFrame_nth:
  assumes "i < length data" "length (currentPositions st) = length data"
  shows "currentPositions (fst (useFrame data speed app time delta st)) ! i
           = fst (animateParticle (systemType data) speed app time
                    (if app \<noteq> lastState st then time else transitionStartTime st) delta
                    (data ! i) (currentPositions st ! i))"
    and "snd (useFrame data speed app time delta st) ! i
           = snd (animateParticle (systemType data) speed app time
                    (if app \<noteq> lastState st then time else transitionStartTime st) delta
                    (data ! i) (currentPositions st ! i))"
  using assms by (simp_all add: useFrame_def Let_def)

lemma runFrames_Cons:
  "fst (runFrames data speed app ((time, delta) # frames) st)
     = fst (runFrames data speed app frames (fst (useFrame data speed app time delta st)))"
  "snd (runFrames data speed app ((time, delta) # frames) st)
     = snd (useFrame data speed app time delta st)
       # snd (runFrames data speed app frames (fst (useFrame data speed app time delta st)))"
  by (simp_all add: Let_def split: prod.splits)

lemma runFrames_length:
  "length (snd (runFrames data speed app frames st)) = length frames"
proof (induction frames arbitrary: st)
  case Nil
  show ?case by simp
next
  case (Cons f frames)
  obtain time delta where f: "f = (time, delta)" by (cases f)
  show ?case unfolding f runFrames_Cons by (simp add: Cons.IH)
qed

lemma sin_lipschitz: "\<bar>sin a - sin b\<bar> \<le> \<bar>a - (b::real)\<bar>"
proof -
  have "\<bar>sin a - sin b\<bar> = 2 * \<bar>sin ((a - b) / 2)\<bar> * \<bar>cos ((a + b) / 2)\<bar>"
    by (simp add: sin_diff_sin abs_mult)
  also have "\<dots> \<le> 2 * \<bar>(a - b) / 2\<bar> * 1"
    by (intro mult_mono mult_left_mono abs_sin_x_le_abs_x) simp_all
  finally show ?thesis by simp
qed


lemma wave_mono: "t \<le> u \<Longrightarrow> currentWaveHeight (t - m) \<le> currentWaveHeight (u - m)"
  by (simp add: currentWaveHeight_def waveSpeed_def)

lemma visible_iff:
  assumes "ty = RIBBON \<or> ty = STAR_PARTICLE"
  shows "\<not> nearZero (snd (animateParticle ty speed TREE time ts delta p cur))
     \<longleftrightarrow> 0.01 < behaviorScale (ty = RIBBON) (ty = STAR_PARTICLE) (ty = ORNAMENT) True time
                   (currentWaveHeight (time - ts)) p
         \<and> distanceTo (fst (animateParticle ty speed TREE time ts delta p cur)) (treePosition p) \<le> 3"
  using assms by (auto simp: animate_snd hideStreaks_def nearZero_def)

lemma ribbon_base_mono:
  assumes "0.05 \<le> pscale p" "t1 \<le> t2"
    and "0.01 < behaviorScale True False False True t1 (currentWaveHeight (t1 - ts)) p"
  shows "0.01 < behaviorScale True False False True t2 (currentWaveHeight (t2 - ts)) p"
proof -
  have "vy (treePosition p) < currentWaveHeight (t1 - ts)"
    using assms(3) by (auto simp: behaviorScale_def split: if_splits)
  then have passed: "vy (treePosition p) < currentWaveHeight (t2 - ts)"
    using wave_mono[OF assms(2), of ts] by linarith
  have "0.05 * 0.4 \<le> pscale p * (0.8 + 0.4 * sin (t2 * 3 + (vy (treePosition p) + 12.5) / 25 * 10))"
    using assms(1) ribbon_osc_lower[of "t2 * 3 + (vy (treePosition p) + 12.5) / 25 * 10"]
    by (intro mult_mono) simp_all
  then show ?thesis
    using passed by (simp add: behaviorScale_def Let_def)
qed

lemma star_pop_mono:
  fixes t1 t2 c :: real
  assumes "t1 \<le> t2" "0 \<le> p1" "p1 \<le> 1" "p2 - p1 = 4 * (t2 - t1)"
  shows "p1 * (1 + 0.3 * sin (t1 * 5 + c)) \<le> p2 * (1 + 0.3 * sin (t2 * 5 + c))"
proof -
  define s1 s2 where "s1 = sin (t1 * 5 + c)" and "s2 = sin (t2 * 5 + c)"
  have "\<bar>sin (t2 * 5 + c) - sin (t1 * 5 + c)\<bar> \<le> \<bar>(t2 * 5 + c) - (t1 * 5 + c)\<bar>"
    by (rule sin_lipschitz)
  then have lip: "s1 - s2 \<le> 5 * (t2 - t1)"
    using assms(1) by (simp add: s1_def s2_def)
  have "p1 * (s1 - s2) \<le> 1 * (5 * (t2 - t1))"
  proof (cases "0 \<le> s1 - s2")
    case True
    then show ?thesis using lip assms by (intro mult_mono) simp_all
  next
    case False
    then have "p1 * (s1 - s2) \<le> 0"
      using assms(2) by (simp add: mult_nonneg_nonpos)
    then show ?thesis using assms(1) by simp
  qed
  then have a: "p1 * s1 - p1 * s2 \<le> 5 * (t2 - t1)"
    by (simp add: algebra_simps)
  have "0.7 \<le> 1 + 0.3 * s2"
    unfolding s2_def by (rule osc_lower)
  then have "(p2 - p1) * 0.7 \<le> (p2 - p1) * (1 + 0.3 * s2)"
    using assms(1,4) by (intro mult_left_mono) simp_all
  moreover have "(p2 - p1) * 0.7 = 2.8 * (t2 - t1)"
    unfolding assms(4) by simp
  moreover have "(p2 - p1) * (1 + 0.3 * s2) = p2 + 0.3 * (p2 * s2) - p1 - 0.3 * (p1 * s2)"
    by (simp add: field_simps)
  ultimately have b: "2.8 * (t2 - t1) \<le> p2 + 0.3 * (p2 * s2) - p1 - 0.3 * (p1 * s2)"
    by linarith
  define u v w where "u = p1 * s1" and "v = p1 * s2" and "w = p2 * s2"
  have "u - v \<le> 5 * (t2 - t1)" "2.8 * (t2 - t1) \<le> p2 + 0.3 * w - p1 - 0.3 * v"
    using a b by (simp_all add: u_def v_def w_def)
  then have "p1 + 0.3 * u \<le> p2 + 0.3 * w"
    using assms(1) by (simp add: field_simps)
  then have "p1 + 0.3 * (p1 * s1) \<le> p2 + 0.3 * (p2 * s2)"
    by (simp add: u_def w_def)
  then show ?thesis
    by (simp add: s1_def s2_def algebra_simps)
qed

lemma star_base_mono:
  assumes "0.05 \<le> pscale p" "t1 \<le> t2"
    and "0.01 < behaviorScale False True False True t1 (currentWaveHeight (t1 - ts)) p"
  shows "0.01 < behaviorScale False True False True t2 (currentWaveHeight (t2 - ts)) p"
proof -
  let ?w1 = "currentWaveHeight (t1 - ts)" and ?w2 = "currentWaveHeight (t2 - ts)"
  let ?c = "of_int (pid p) :: real"
  have w1: "14 < ?w1"
    using assms(3) by (auto simp: behaviorScale_def split: if_splits)
  have w12: "?w1 \<le> ?w2" by (rule wave_mono[OF assms(2)])
  have b1: "behaviorScale False True False True t1 ?w1 p
            = pscale p * (min 1 ((?w1 - 14) / 5) * (1 + 0.3 * sin (t1 * 5 + ?c)))"
    using w1 by (simp add: behaviorScale_def Let_def)
  have b2: "behaviorScale False True False True t2 ?w2 p
            = pscale p * (min 1 ((?w2 - 14) / 5) * (1 + 0.3 * sin (t2 * 5 + ?c)))"
    using w1 w12 by (simp add: behaviorScale_def Let_def)
  show ?thesis
  proof (cases "?w2 < 19")
    case True
    have p1: "min 1 ((?w1 - 14) / 5) = (?w1 - 14) / 5" and p2: "min 1 ((?w2 - 14) / 5) = (?w2 - 14) / 5"
      using True w12 by simp_all
    have "(?w2 - 14) / 5 - (?w1 - 14) / 5 = 4 * (t2 - t1)"
      by (simp add: currentWaveHeight_def waveSpeed_def field_simps)
    then have "(?w1 - 14) / 5 * (1 + 0.3 * sin (t1 * 5 + ?c))
               \<le> (?w2 - 14) / 5 * (1 + 0.3 * sin (t2 * 5 + ?c))"
      using w1 True w12 assms(2) by (intro star_pop_mono) simp_all
    then have "pscale p * ((?w1 - 14) / 5 * (1 + 0.3 * sin (t1 * 5 + ?c)))
               \<le> pscale p * ((?w2 - 14) / 5 * (1 + 0.3 * sin (t2 * 5 + ?c)))"
      using assms(1) by (intro mult_left_mono) simp_all
    then show ?thesis
      using assms(3) unfolding b1 b2 p1 p2 by linarith
  next
    case False
    then have p2: "min 1 ((?w2 - 14) / 5) = 1" by simp
    have "0.05 * 0.7 \<le> pscale p * (1 + 0.3 * sin (t2 * 5 + ?c))"
      using assms(1) osc_lower[of "t2 * 5 + ?c"] by (intro mult_mono) simp_all
    then show ?thesis unfolding b2 p2 by simp
  qed
qed

lemma base_mono:
  assumes "ty = RIBBON \<or> ty = STAR_PARTICLE" "0.05 \<le> pscale p" "t1 \<le> t2"
    and "0.01 < behaviorScale (ty = RIBBON) (ty = STAR_PARTICLE) (ty = ORNAMENT) True t1
                  (currentWaveHeight (t1 - ts)) p"
  shows "0.01 < behaviorScale (ty = RIBBON) (ty = STAR_PARTICLE) (ty = ORNAMENT) True t2
                  (currentWaveHeight (t2 - ts)) p"
  using assms ribbon_base_mono[of p t1 t2 ts] star_base_mono[of p t1 t2 ts] by auto

lemma tree_step_closer:
  assumes "ty = RIBBON \<or> ty = STAR_PARTICLE"
  shows "distanceTo (fst (animateParticle ty speed TREE time ts delta p cur)) (treePosition p)
         \<le> distanceTo cur (treePosition p)"
proof -
  let ?al = "particleLerp ty speed TREE time ts delta p"
  have "\<bar>1 - ?al\<bar> \<le> 1"
    using particleLerp_unit[of ty speed TREE time ts delta p] by simp
  then have "\<bar>1 - ?al\<bar> * distanceTo cur (treePosition p) \<le> 1 * distanceTo cur (treePosition p)"
    by (intro mult_right_mono distanceTo_nonneg)
  then show ?thesis
    using assms by (auto simp: animate_fst behaviorTarget_wave lerp_distance)
qed


lemma session_stays_visible:
  assumes ty: "systemType data = RIBBON \<or> systemType data = STAR_PARTICLE"
    and i: "i < length data" and sc: "0.05 \<le> pscale (data ! i)"
    and base: "0.01 < behaviorScale (systemType data = RIBBON) (systemType data = STAR_PARTICLE)
                 (systemType data = ORNAMENT) True t0 (currentWaveHeight (t0 - ts)) (data ! i)"
  shows "length (currentPositions st) = length data \<Longrightarrow> lastState st = TREE
     \<Longrightarrow> transitionStartTime st = ts
     \<Longrightarrow> distanceTo (currentPositions st ! i) (treePosition (data ! i)) \<le> 3
     \<Longrightarrow> \<forall>f \<in> set frames. t0 \<le> fst f
     \<Longrightarrow> \<forall>scales \<in> set (snd (runFrames data speed TREE frames st)). \<not> nearZero (scales ! i)"
proof (induction frames arbitrary: st)
  case Nil
  show ?case by simp
next
  case (Cons f frames)
  obtain time delta where f: "f = (time, delta)" by (cases f)
  let ?st = "fst (useFrame data speed TREE time delta st)"
  let ?out = "animateParticle (systemType data) speed TREE time ts delta (data ! i)
                (currentPositions st ! i)"
  have t: "t0 \<le> time" using Cons.prems(5) f by simp
  have pos: "currentPositions ?st ! i = fst ?out"
    and scl: "snd (useFrame data speed TREE time delta st) ! i = snd ?out"
    using useFrame_nth[OF i Cons.prems(1), of speed TREE time delta] Cons.prems(2,3) by simp_all
  have near: "distanceTo (fst ?out) (treePosition (data ! i)) \<le> 3"
    using tree_step_closer[OF ty, of speed time ts delta "data ! i" "currentPositions st ! i"]
      Cons.prems(4) by linarith
  have "\<not> nearZero (snd ?out)"
    using visible_iff[OF ty, of speed time ts delta "data ! i" "currentPositions st ! i"]
      base_mono[OF ty sc t base] near by simp
  moreover have "\<forall>scales \<in> set (snd (runFrames data speed TREE frames ?st)). \<not> nearZero (scales ! i)"
  proof (rule Cons.IH)
    show "length (currentPositions ?st) = length data"
      using Cons.prems(1) by (simp add: useFrame_state)
    show "lastState ?st = TREE" by (simp add: useFrame_state)
    show "transitionStartTime ?st = ts"
      using Cons.prems(2,3) by (simp add: useFrame_state)
    show "distanceTo (currentPositions ?st ! i) (treePosition (data ! i)) \<le> 3"
      using near pos by simp
    show "\<forall>f \<in> set frames. t0 \<le> fst f"
      using Cons.prems(5) by simp
  qed
  ultimately show ?case
    unfolding f runFrames_Cons using scl by simp
qed

text \<open>C2: for a fixed \<open>modeChangedAt\<close> the wave height \<open>-15 + (t - modeChangedAt) * 20\<close>
  is non-decreasing in \<open>t\<close>. And in a run of tree-mode frames with non-decreasing clock times
  (any deltas, any state before the run), once a frame emits a scale that is not near-zero
  for a ribbon or star particle, every later frame of the run does so too. The particle's
  base scale is at least \<open>0.05\<close>, as the generator makes it for both kinds (ribbon scales
  are at least \<open>0.08\<close>, star scales at least \<open>0.05\<close>).\<close>

theorem reveal_never_flickers:
  assumes ty: "systemType data = RIBBON \<or> systemType data = STAR_PARTICLE"
    and i: "i < length data" and sc: "0.05 \<le> pscale (data ! i)"
  shows "(t \<le> u \<longrightarrow> -15 + (t - modeChangedAt) * 20 \<le> -15 + (u - modeChangedAt) * 20)
    \<and> currentWaveHeight (t - modeChangedAt) = -15 + (t - modeChangedAt) * 20
    \<and> (length (currentPositions st) = length data \<longrightarrow> sorted (map fst frames)
         \<longrightarrow> a \<le> b \<longrightarrow> b < length frames
         \<longrightarrow> \<not> nearZero (snd (runFrames data speed TREE frames st) ! a ! i)
         \<longrightarrow> \<not> nearZero (snd (runFrames data speed TREE frames st) ! b ! i))"
proof -
  have main: "length (currentPositions st) = length data \<Longrightarrow> sorted (map fst frames)
     \<Longrightarrow> a \<le> b \<Longrightarrow> b < length frames
     \<Longrightarrow> \<not> nearZero (snd (runFrames data speed TREE frames st) ! a ! i)
     \<Longrightarrow> \<not> nearZero (snd (runFrames data speed TREE frames st) ! b ! i)"
  proof (induction frames arbitrary: st a b)
    case Nil
    then show ?case by simp
  next
    case (Cons f frames)
    obtain time delta where f: "f = (time, delta)" by (cases f)
    let ?st = "fst (useFrame data speed TREE time delta st)"
    let ?ts = "if TREE \<noteq> lastState st then time else transitionStartTime st"
    let ?out = "animateParticle (systemType data) speed TREE time ?ts delta (data ! i)
                  (currentPositions st ! i)"
    have len: "length (currentPositions ?st) = length data"
      using Cons.prems(1) by (simp add: useFrame_state)
    have srt: "sorted (map fst frames)" and later: "\<forall>g \<in> set frames. time \<le> fst g"
      using Cons.prems(2) f by simp_all
    show ?case
    proof (cases a)
      case 0
      show ?thesis
      proof (cases b)
        case 0
        then show ?thesis using Cons.prems(5) \<open>a = 0\<close> by simp
      next
        case (Suc b')
        have vis: "\<not> nearZero (snd ?out)"
          using Cons.prems(5) \<open>a = 0\<close> useFrame_nth(2)[OF i Cons.prems(1), of speed TREE time delta]
          unfolding f runFrames_Cons by simp
        have base: "0.01 < behaviorScale (systemType data = RIBBON) (systemType data = STAR_PARTICLE)
                 (systemType data = ORNAMENT) True time (currentWaveHeight (time - ?ts)) (data ! i)"
          and near: "distanceTo (fst ?out) (treePosition (data ! i)) \<le> 3"
          using vis visible_iff[OF ty, of speed time ?ts delta "data ! i" "currentPositions st ! i"]
          by blast+
        have "\<forall>scales \<in> set (snd (runFrames data speed TREE frames ?st)). \<not> nearZero (scales ! i)"
        proof (rule session_stays_visible[OF ty i sc base len])
          show "lastState ?st = TREE" by (simp add: useFrame_state)
          show "transitionStartTime ?st = ?ts" by (simp add: useFrame_state)
          show "distanceTo (currentPositions ?st ! i) (treePosition (data ! i)) \<le> 3"
            using near useFrame_nth(1)[OF i Cons.prems(1), of speed TREE time delta] by simp
          show "\<forall>g \<in> set frames. time \<le> fst g" by (rule later)
        qed
        moreover have "b' < length (snd (runFrames data speed TREE frames ?st))"
          using Cons.prems(4) Suc by (simp add: runFrames_length)
        ultimately have "\<not> nearZero (snd (runFrames data speed TREE frames ?st) ! b' ! i)"
          using nth_mem by blast
        then show ?thesis
          unfolding f runFrames_Cons Suc by simp
      qed
    next
      case (Suc a')
      then obtain b' where b: "b = Suc b'" "a' \<le> b'"
        using Cons.prems(3) by (cases b) simp_all
      have "\<not> nearZero (snd (runFrames data speed TREE frames ?st) ! b' ! i)"
      proof (rule Cons.IH[OF len srt b(2)])
        show "b' < length frames" using Cons.prems(4) b by simp
        show "\<not> nearZero (snd (runFrames data speed TREE frames ?st) ! a' ! i)"
          using Cons.prems(5) unfolding f runFrames_Cons Suc by simp
      qed
      then show ?thesis
        unfolding f runFrames_Cons b by simp
    qed
  qed
  have "currentWaveHeight (t - modeChangedAt) = -15 + (t - modeChangedAt) * 20"
    by (simp add: currentWaveHeight_def waveStartOffset_def waveSpeed_def)
  then show ?thesis
    using main by simp
qed

theorem reveal_never_flickers_witness:
  "systemType [ribbonExample] = RIBBON \<and> (0::nat) < length [ribbonExample]
   \<and> 0.05 \<le> pscale ([ribbonExample] ! 0)
   \<and> (1::real) \<le> 2 \<and> -15 + (1 - 0) * 20 \<le> -15 + (2 - 0) * (20::real)
   \<and> length (currentPositions (initSystem [ribbonExample] TREE)) = length [ribbonExample]
   \<and> sorted (map fst [(2::real, 1/60::real), (3, 1/60)])
   \<and> (0::nat) \<le> 1 \<and> (1::nat) < length [(2::real, 1/60::real), (3, 1/60)]
   \<and> \<not> nearZero (snd (runFrames [ribbonExample] 2.5 TREE [(2, 1/60), (3, 1/60)]
                         (initSystem [ribbonExample] TREE)) ! 0 ! 0)
   \<and> \<not> nearZero (snd (runFrames [ribbonExample] 2.5 TREE [(2, 1/60), (3, 1/60)]
                         (initSystem [ribbonExample] TREE)) ! 1 ! 0)"
proof -
  let ?st = "initSystem [ribbonExample] TREE"
  let ?frames = "[(2::real, 1/60::real), (3, 1/60)]"
  let ?run = "snd (runFrames [ribbonExample] 2.5 TREE ?frames ?st)"
  have rib: "systemType [ribbonExample] = RIBBON"
    by (simp add: systemType_def ribbonExample_def)
  then have ty: "systemType [ribbonExample] = RIBBON \<or> systemType [ribbonExample] = STAR_PARTICLE"
    by simp
  have i: "(0::nat) < length [ribbonExample]" by simp
  have sc: "0.05 \<le> pscale ([ribbonExample] ! 0)" by (simp add: ribbonExample_def)
  have len: "length (currentPositions ?st) = length [ribbonExample]"
    by (simp add: initSystem_def)
  have srt: "sorted (map fst ?frames)" by simp
  have ab: "(0::nat) \<le> 1" "(1::nat) < length ?frames" by simp_all
  have w: "(1::real) \<le> 2" "-15 + (1 - 0) * 20 \<le> -15 + (2 - 0) * (20::real)" by simp_all
  have "?run ! 0 = snd (useFrame [ribbonExample] 2.5 TREE 2 (1/60) ?st)"
    unfolding runFrames_Cons by simp
  also have "\<dots> ! 0 = snd (animateParticle RIBBON 2.5 TREE 2 0 (1/60) ribbonExample
                             (treePosition ribbonExample))"
    unfolding useFrame_nth(2)[OF i len] rib by (simp add: initSystem_def)
  finally have first: "\<not> nearZero (?run ! 0 ! 0)"
    using ribbon_example_visible[of "2.5" "1/60"] by (simp add: nearZero_def)
  have "\<not> nearZero (?run ! 1 ! 0)"
    using reveal_never_flickers[OF ty i sc, of 1 2 0 ?st ?frames 0 1 "2.5"]
      len srt ab first by blast
  then show ?thesis
    using rib i sc w len srt ab first by blast
qed

section \<open>The flip to explode mode\<close>

lemma norm3_triangle:
  "sqrt ((a + d)\<^sup>2 + (b + e)\<^sup>2 + (c + f)\<^sup>2)
   \<le> sqrt (a\<^sup>2 + b\<^sup>2 + c\<^sup>2) + sqrt (d\<^sup>2 + e\<^sup>2 + f\<^sup>2)"
proof -
  let ?P = "sqrt (a\<^sup>2 + b\<^sup>2)" and ?Q = "sqrt (d\<^sup>2 + e\<^sup>2)"
  have "sqrt ((a + d)\<^sup>2 + (b + e)\<^sup>2) \<le> ?P + ?Q"
    by (rule real_sqrt_sum_squares_triangle_ineq)
  then have "(sqrt ((a + d)\<^sup>2 + (b + e)\<^sup>2))\<^sup>2 \<le> (?P + ?Q)\<^sup>2"
    by (intro power_mono) simp_all
  then have "(a + d)\<^sup>2 + (b + e)\<^sup>2 \<le> (?P + ?Q)\<^sup>2"
    by simp
  then have "sqrt ((a + d)\<^sup>2 + (b + e)\<^sup>2 + (c + f)\<^sup>2) \<le> sqrt ((?P + ?Q)\<^sup>2 + (c + f)\<^sup>2)"
    by simp
  also have "\<dots> \<le> sqrt (?P\<^sup>2 + c\<^sup>2) + sqrt (?Q\<^sup>2 + f\<^sup>2)"
    by (rule real_sqrt_sum_squares_triangle_ineq)
  finally show ?thesis by simp
qed

lemma norm3_scale:
  "sqrt ((k * a)\<^sup>2 + (k * b)\<^sup>2 + (k * c)\<^sup>2) = \<bar>k\<bar> * sqrt (a\<^sup>2 + b\<^sup>2 + c\<^sup>2)"
proof -
  have "(k * a)\<^sup>2 + (k * b)\<^sup>2 + (k * c)\<^sup>2 = k\<^sup>2 * (a\<^sup>2 + b\<^sup>2 + c\<^sup>2)"
    by (simp add: power_mult_distrib algebra_simps)
  then show ?thesis by (simp add: real_sqrt_mult)
qed

lemma lerp_drift_distance:
  assumes "0 \<le> al" "al \<le> 1"
  shows "distanceTo (lerp cur (vec3 (vx E + d1) (vy E + d2) (vz E + d3)) al) E
         \<le> (1 - al) * distanceTo cur E + al * sqrt (d1\<^sup>2 + d2\<^sup>2 + d3\<^sup>2)"
proof -
  have "distanceTo (lerp cur (vec3 (vx E + d1) (vy E + d2) (vz E + d3)) al) E
        = sqrt (((1 - al) * (vx cur - vx E) + al * d1)\<^sup>2
              + ((1 - al) * (vy cur - vy E) + al * d2)\<^sup>2
              + ((1 - al) * (vz cur - vz E) + al * d3)\<^sup>2)"
    by (simp add: distanceTo_def lerp_def vec3_def algebra_simps)
  also have "\<dots> \<le> sqrt (((1 - al) * (vx cur - vx E))\<^sup>2 + ((1 - al) * (vy cur - vy E))\<^sup>2
                       + ((1 - al) * (vz cur - vz E))\<^sup>2)
                  + sqrt ((al * d1)\<^sup>2 + (al * d2)\<^sup>2 + (al * d3)\<^sup>2)"
    by (rule norm3_triangle)
  also have "\<dots> = (1 - al) * distanceTo cur E + al * sqrt (d1\<^sup>2 + d2\<^sup>2 + d3\<^sup>2)"
    using assms unfolding norm3_scale by (simp add: distanceTo_def)
  finally show ?thesis .
qed

lemma drift_sum:
  fixes a b :: real
  shows "(cos a * 0.08)\<^sup>2 + (sin b * 0.05)\<^sup>2 + (sin a * 0.08)\<^sup>2
         = 0.0064 + 0.0025 * (sin b)\<^sup>2"
proof -
  have e: "(x * 0.08)\<^sup>2 = 0.0064 * x\<^sup>2" for x :: real
    by (simp add: power2_eq_square)
  have "(cos a * 0.08)\<^sup>2 + (sin a * 0.08)\<^sup>2 = 0.0064 * ((cos a)\<^sup>2 + (sin a)\<^sup>2)"
    unfolding e by (simp only: distrib_left)
  also have "\<dots> = 0.0064"
    by simp
  finally have "(cos a * 0.08)\<^sup>2 + (sin a * 0.08)\<^sup>2 = 0.0064" .
  moreover have "(sin b * 0.05)\<^sup>2 = 0.0025 * (sin b)\<^sup>2"
    by (simp add: power2_eq_square)
  ultimately show ?thesis by linarith
qed

lemma drift_upper:
  fixes a b :: real
  shows "sqrt ((cos a * 0.08)\<^sup>2 + (sin b * 0.05)\<^sup>2 + (sin a * 0.08)\<^sup>2) \<le> 0.095"
proof -
  have "(sin b)\<^sup>2 \<le> 1" by (simp add: abs_square_le_1)
  then have "(cos a * 0.08)\<^sup>2 + (sin b * 0.05)\<^sup>2 + (sin a * 0.08)\<^sup>2 \<le> 0.095\<^sup>2"
    unfolding drift_sum by (simp add: power2_eq_square)
  then show ?thesis by (rule real_le_lsqrt[rotated 1]) simp_all
qed

lemma drift_lower:
  fixes a b :: real
  shows "0.08 \<le> sqrt ((cos a * 0.08)\<^sup>2 + (sin b * 0.05)\<^sup>2 + (sin a * 0.08)\<^sup>2)"
proof -
  have "0.08\<^sup>2 \<le> (cos a * 0.08)\<^sup>2 + (sin b * 0.05)\<^sup>2 + (sin a * 0.08)\<^sup>2"
    unfolding drift_sum by (simp add: power2_eq_square)
  then show ?thesis by (rule real_le_rsqrt)
qed


lemma explode_lerp:
  "particleLerp ty speed EXPLODE time ts delta p = clamp (delta * speed) 0 1"
  by (simp add: particleLerp_def activeLerp_def)

lemma clamp_pos: "0 < delta \<Longrightarrow> 0 < speed \<Longrightarrow> 0 < clamp (delta * speed) 0 1"
  by (simp add: clamp_def)

text \<open>How far a particle of a component of type \<open>ty\<close> may aim off its explode position:
  nothing for ribbon and star particles, the chaotic drift for leaves and ornaments.\<close>

lemma explode_step_bound:
  assumes "0 \<le> dr" "ty = RIBBON \<or> ty = STAR_PARTICLE \<or> 0.095 \<le> dr"
  shows "distanceTo (fst (animateParticle ty speed EXPLODE time ts delta p cur)) (explodePosition p)
         \<le> (1 - clamp (delta * speed) 0 1) * distanceTo cur (explodePosition p)
           + clamp (delta * speed) 0 1 * dr"
proof -
  let ?al = "clamp (delta * speed) 0 1"
  let ?E = "explodePosition p"
  have al: "0 \<le> ?al" "?al \<le> 1" using clamp01[of "delta * speed"] by simp_all
  show ?thesis
  proof (cases "ty = RIBBON \<or> ty = STAR_PARTICLE")
    case True
    then have "distanceTo (fst (animateParticle ty speed EXPLODE time ts delta p cur)) ?E
               = (1 - ?al) * distanceTo cur ?E"
      using al by (simp add: animate_fst behaviorTarget_wave explode_lerp lerp_distance)
    moreover have "0 \<le> ?al * dr" using al assms(1) by simp
    ultimately show ?thesis by linarith
  next
    case False
    let ?c = "of_int (pid p) :: real"
    let ?d1 = "cos (time * 0.3 + ?c) * 0.08" and ?d2 = "sin (time * 0.2 + ?c) * 0.05"
      and ?d3 = "sin (time * 0.3 + ?c) * 0.08"
    have tgt: "behaviorTarget (ty = RIBBON) (ty = STAR_PARTICLE) False time p
               = vec3 (vx ?E + ?d1) (vy ?E + ?d2) (vz ?E + ?d3)"
      using False by (simp add: behaviorTarget_def Let_def)
    have "distanceTo (fst (animateParticle ty speed EXPLODE time ts delta p cur)) ?E
          \<le> (1 - ?al) * distanceTo cur ?E + ?al * sqrt (?d1\<^sup>2 + ?d2\<^sup>2 + ?d3\<^sup>2)"
      unfolding animate_fst explode_lerp using tgt lerp_drift_distance[OF al] by simp
    moreover have "?al * sqrt (?d1\<^sup>2 + ?d2\<^sup>2 + ?d3\<^sup>2) \<le> ?al * dr"
      using drift_upper[of "time * 0.3 + ?c" "time * 0.2 + ?c"] assms(2) False al
      by (intro mult_left_mono) simp_all
    ultimately show ?thesis by linarith
  qed
qed

lemma explode_run_within:
  assumes i: "i < length data" and speed: "0 < speed"
    and dr: "0 \<le> dr" "systemType data = RIBBON \<or> systemType data = STAR_PARTICLE \<or> 0.095 \<le> dr"
    and m: "dr < m"
  shows "frames \<noteq> [] \<Longrightarrow> \<forall>f \<in> set frames. 0 < snd f
     \<Longrightarrow> length (currentPositions st) = length data
     \<Longrightarrow> distanceTo (currentPositions st ! i) (explodePosition (data ! i)) \<le> m
     \<Longrightarrow> distanceTo (currentPositions (fst (runFrames data speed EXPLODE frames st)) ! i)
           (explodePosition (data ! i)) < m"
proof (induction frames arbitrary: st)
  case Nil
  then show ?case by simp
next
  case (Cons f frames)
  obtain time delta where f: "f = (time, delta)" by (cases f)
  let ?st = "fst (useFrame data speed EXPLODE time delta st)"
  let ?ts = "if EXPLODE \<noteq> lastState st then time else transitionStartTime st"
  let ?al = "clamp (delta * speed) 0 1"
  let ?d = "distanceTo (currentPositions st ! i) (explodePosition (data ! i))"
  have delta: "0 < delta" using Cons.prems(2) f by simp
  have al: "0 < ?al" "?al \<le> 1"
    using clamp_pos[OF delta speed] clamp01[of "delta * speed"] by simp_all
  have "distanceTo (currentPositions ?st ! i) (explodePosition (data ! i))
        \<le> (1 - ?al) * ?d + ?al * dr"
    unfolding useFrame_nth(1)[OF i Cons.prems(3)] by (rule explode_step_bound[OF dr])
  moreover have "(1 - ?al) * ?d \<le> (1 - ?al) * m"
    using al Cons.prems(4) by (intro mult_left_mono) simp_all
  moreover have "?al * dr < ?al * m"
    using al m by simp
  moreover have "(1 - ?al) * m + ?al * m = m"
    by (simp add: algebra_simps)
  ultimately have step: "distanceTo (currentPositions ?st ! i) (explodePosition (data ! i)) < m"
    by linarith
  show ?case
  proof (cases "frames = []")
    case True
    then show ?thesis using step unfolding f runFrames_Cons by simp
  next
    case False
    have "distanceTo (currentPositions (fst (runFrames data speed EXPLODE frames ?st)) ! i)
           (explodePosition (data ! i)) < m"
    proof (rule Cons.IH[OF False])
      show "\<forall>f \<in> set frames. 0 < snd f" using Cons.prems(2) by simp
      show "length (currentPositions ?st) = length data"
        using Cons.prems(3) by (simp add: useFrame_state)
      show "distanceTo (currentPositions ?st ! i) (explodePosition (data ! i)) \<le> m"
        using step by simp
    qed
    then show ?thesis unfolding f runFrames_Cons .
  qed
qed

lemma explode_ribbon_scale:
  assumes i: "i < length data" and ty: "systemType data = RIBBON \<or> systemType data = STAR_PARTICLE"
  shows "length (currentPositions st) = length data
     \<Longrightarrow> \<forall>scales \<in> set (snd (runFrames data speed EXPLODE frames st)). scales ! i = 0"
proof (induction frames arbitrary: st)
  case Nil
  show ?case by simp
next
  case (Cons f frames)
  obtain time delta where f: "f = (time, delta)" by (cases f)
  let ?st = "fst (useFrame data speed EXPLODE time delta st)"
  have "snd (useFrame data speed EXPLODE time delta st) ! i = 0"
    unfolding useFrame_nth(2)[OF i Cons.prems] using ty
    by (auto simp: animate_snd hideStreaks_def behaviorScale_def)
  moreover have "\<forall>scales \<in> set (snd (runFrames data speed EXPLODE frames ?st)). scales ! i = 0"
    using Cons.prems by (intro Cons.IH) (simp add: useFrame_state)
  ultimately show ?case unfolding f runFrames_Cons by simp
qed

lemma distanceTo_pos: "a \<noteq> v \<Longrightarrow> 0 < distanceTo a v"
proof -
  assume "a \<noteq> v"
  then have "vx a - vx v \<noteq> 0 \<or> vy a - vy v \<noteq> 0 \<or> vz a - vz v \<noteq> 0"
    by (cases a, cases v) auto
  then have "0 < (vx a - vx v)\<^sup>2 + (vy a - vy v)\<^sup>2 + (vz a - vz v)\<^sup>2"
    by (metis add_pos_nonneg add_nonneg_pos zero_le_power2 zero_less_power2 add_nonneg_nonneg)
  then show ?thesis by (simp add: distanceTo_def)
qed

text \<open>C9, as amended: take a component whose running position of particle \<open>i\<close> is the
  particle's tree position, distinct from its explode position, and run any positive number
  of explode-mode frames with positive deltas (in particular one fixed delta) and a positive
  animation speed. For a ribbon or star particle, and for a leaf or ornament whose two
  positions are at least \<open>0.1\<close> apart, the running position ends strictly closer to the
  explode position than it started. And the scale emitted for a ribbon particle is exactly
  0 on every one of these frames.\<close>

theorem explode_moves_closer:
  assumes "i < length data" and "0 < speed"
    and "length (currentPositions st) = length data"
    and "currentPositions st ! i = treePosition (data ! i)"
    and "treePosition (data ! i) \<noteq> explodePosition (data ! i)"
    and "frames \<noteq> []" and "\<forall>f \<in> set frames. 0 < snd f"
    and "systemType data = RIBBON \<or> systemType data = STAR_PARTICLE
         \<or> 0.1 \<le> distanceTo (treePosition (data ! i)) (explodePosition (data ! i))"
  shows "distanceTo (currentPositions (fst (runFrames data speed EXPLODE frames st)) ! i)
           (explodePosition (data ! i))
         < distanceTo (treePosition (data ! i)) (explodePosition (data ! i))
    \<and> (systemType data = RIBBON \<longrightarrow>
         (\<forall>scales \<in> set (snd (runFrames data speed EXPLODE frames st)). scales ! i = 0))"
proof -
  let ?m = "distanceTo (treePosition (data ! i)) (explodePosition (data ! i))"
  have pos: "0 < ?m" using assms(5) by (rule distanceTo_pos)
  define dr :: real where
    "dr = (if systemType data = RIBBON \<or> systemType data = STAR_PARTICLE then 0 else 0.095)"
  have dr: "0 \<le> dr" "systemType data = RIBBON \<or> systemType data = STAR_PARTICLE \<or> 0.095 \<le> dr"
    "dr < ?m"
    using pos assms(8) by (auto simp: dr_def)
  have "distanceTo (currentPositions (fst (runFrames data speed EXPLODE frames st)) ! i)
           (explodePosition (data ! i)) < ?m"
    using assms(4)
    by (intro explode_run_within[OF assms(1,2) dr assms(6,7,3)]) simp
  moreover have "\<forall>scales \<in> set (snd (runFrames data speed EXPLODE frames st)). scales ! i = 0"
    if "systemType data = RIBBON"
    using that by (intro explode_ribbon_scale[OF assms(1) _ assms(3)]) simp
  ultimately show ?thesis by blast
qed


lemma runFrames_single:
  "fst (runFrames data speed app [(time, delta)] st) = fst (useFrame data speed app time delta st)"
  by (simp split: prod.splits)

lemma lerp_one: "lerp a (vec3 b c d) 1 = vec3 b c d"
  by (simp add: lerp_def vec3_def)

text \<open>C9 as stated fails for leaves and ornaments, which aim at the explode position plus
  a drift of length at least \<open>0.08\<close>: a leaf starting \<open>0.01\<close> from its explode position is
  \<open>0.08\<close> or more away after one frame of delta \<open>0.4\<close>.\<close>

theorem leaf_drift_counterexample:
  "treePosition leafExample \<noteq> explodePosition leafExample
   \<and> \<not> distanceTo (currentPositions (fst (runFrames [leafExample] 2.5 EXPLODE [(1, 0.4)]
                                      (initSystem [leafExample] TREE))) ! 0)
          (explodePosition leafExample)
       < distanceTo (treePosition leafExample) (explodePosition leafExample)"
proof -
  let ?st = "initSystem [leafExample] TREE"
  let ?E = "explodePosition leafExample"
  let ?d1 = "cos (1 * 0.3 + of_int 0) * 0.08 :: real" and ?d2 = "sin (1 * 0.2 + of_int 0) * 0.05 :: real"
    and ?d3 = "sin (1 * 0.3 + of_int 0) * 0.08 :: real"
  have i: "(0::nat) < length [leafExample]" by simp
  have len: "length (currentPositions ?st) = length [leafExample]"
    by (simp add: initSystem_def)
  have ty: "systemType [leafExample] = LEAF"
    by (simp add: systemType_def leafExample_def)
  have d0: "distanceTo (treePosition leafExample) ?E = 0.01"
    by (simp add: distanceTo_def leafExample_def vec3_def)
  have al: "particleLerp LEAF 2.5 EXPLODE 1 1 0.4 leafExample = 1"
    by (simp add: explode_lerp clamp_def)
  have tgt: "behaviorTarget False False False 1 leafExample
             = vec3 (vx ?E + ?d1) (vy ?E + ?d2) (vz ?E + ?d3)"
    by (simp add: behaviorTarget_def Let_def leafExample_def)
  have "currentPositions (fst (runFrames [leafExample] 2.5 EXPLODE [(1, 0.4)] ?st)) ! 0
        = currentPositions (fst (useFrame [leafExample] 2.5 EXPLODE 1 0.4 ?st)) ! 0"
    by (simp only: runFrames_single)
  also have "\<dots> = fst (animateParticle (systemType [leafExample]) 2.5 EXPLODE 1
                          (if EXPLODE \<noteq> lastState ?st then 1 else transitionStartTime ?st) 0.4
                          ([leafExample] ! 0) (currentPositions ?st ! 0))"
    by (rule useFrame_nth(1)[OF i len])
  also have "\<dots> = fst (animateParticle LEAF 2.5 EXPLODE 1 1 0.4 leafExample
                          (treePosition leafExample))"
    by (simp add: ty initSystem_def)
  also have "\<dots> = vec3 (vx ?E + ?d1) (vy ?E + ?d2) (vz ?E + ?d3)"
    unfolding animate_fst al using tgt by (simp add: lerp_one)
  finally have "distanceTo (currentPositions (fst (runFrames [leafExample] 2.5 EXPLODE [(1, 0.4)] ?st)) ! 0) ?E
      = sqrt (?d1\<^sup>2 + ?d2\<^sup>2 + ?d3\<^sup>2)"
    by (simp add: distanceTo_def vec3_def)
  then have "0.08 \<le> distanceTo (currentPositions (fst (runFrames [leafExample] 2.5 EXPLODE [(1, 0.4)] ?st)) ! 0) ?E"
    using drift_lower[of "1 * 0.3 + of_int 0" "1 * 0.2 + of_int 0"] by simp
  moreover have "treePosition leafExample \<noteq> ?E"
    by (simp add: leafExample_def vec3_def)
  ultimately show ?thesis
    unfolding d0 by simp
qed

theorem explode_moves_closer_witness:
  "(0::nat) < length [ribbonExample] \<and> (0::real) < 2.5
   \<and> length (currentPositions (initSystem [ribbonExample] TREE)) = length [ribbonExample]
   \<and> currentPositions (initSystem [ribbonExample] TREE) ! 0 = treePosition ([ribbonExample] ! 0)
   \<and> treePosition ([ribbonExample] ! 0) \<noteq> explodePosition ([ribbonExample] ! 0)
   \<and> [(1::real, 1/60::real), (2, 1/60)] \<noteq> []
   \<and> (0::real) < snd (1::real, 1/60::real) \<and> (0::real) < snd (2::real, 1/60::real)
   \<and> systemType [ribbonExample] = RIBBON
   \<and> distanceTo (currentPositions (fst (runFrames [ribbonExample] 2.5 EXPLODE
                       [(1, 1/60), (2, 1/60)] (initSystem [ribbonExample] TREE))) ! 0)
          (explodePosition ([ribbonExample] ! 0))
       < distanceTo (treePosition ([ribbonExample] ! 0)) (explodePosition ([ribbonExample] ! 0))
   \<and> snd (runFrames [ribbonExample] 2.5 EXPLODE [(1, 1/60), (2, 1/60)]
            (initSystem [ribbonExample] TREE)) ! 0 ! 0 = 0
   \<and> snd (runFrames [ribbonExample] 2.5 EXPLODE [(1, 1/60), (2, 1/60)]
            (initSystem [ribbonExample] TREE)) ! 1 ! 0 = 0"
proof -
  let ?st = "initSystem [ribbonExample] TREE"
  let ?frames = "[(1::real, 1/60::real), (2, 1/60)]"
  let ?run = "snd (runFrames [ribbonExample] 2.5 EXPLODE ?frames ?st)"
  have i: "(0::nat) < length [ribbonExample]" by simp
  have sp: "(0::real) < 2.5" by simp
  have len: "length (currentPositions ?st) = length [ribbonExample]"
    by (simp add: initSystem_def)
  have start: "currentPositions ?st ! 0 = treePosition ([ribbonExample] ! 0)"
    by (simp add: initSystem_def)
  have ne: "treePosition ([ribbonExample] ! 0) \<noteq> explodePosition ([ribbonExample] ! 0)"
    by (simp add: ribbonExample_def vec3_def)
  have fr: "?frames \<noteq> []" "\<forall>f \<in> set ?frames. 0 < snd f" by simp_all
  have dl: "(0::real) < snd (1::real, 1/60::real)" "(0::real) < snd (2::real, 1/60::real)"
    by simp_all
  have rib: "systemType [ribbonExample] = RIBBON"
    by (simp add: systemType_def ribbonExample_def)
  then have ty: "systemType [ribbonExample] = RIBBON \<or> systemType [ribbonExample] = STAR_PARTICLE
      \<or> 0.1 \<le> distanceTo (treePosition ([ribbonExample] ! 0)) (explodePosition ([ribbonExample] ! 0))"
    by simp
  have "length ?run = 2" by (simp only: runFrames_length) simp
  then have mem: "?run ! 0 \<in> set ?run" "?run ! 1 \<in> set ?run"
    by (simp_all only: nth_mem) 
  show ?thesis
    using explode_moves_closer[OF i sp len start ne fr ty] i sp len start ne fr(1) dl rib mem
    by blast
qed

section \<open>Properties of the particle generator\<close>

lemma sphere_length:
  "vlength (vec3 (radius * sin phi * cos theta) (radius * sin phi * sin theta) (radius * cos phi))
   = \<bar>radius\<bar>"
proof -
  have "(radius * sin phi * cos theta)\<^sup>2 + (radius * sin phi * sin theta)\<^sup>2
        = (radius * sin phi)\<^sup>2 * ((sin theta)\<^sup>2 + (cos theta)\<^sup>2)"
    by (simp only: power_mult_distrib distrib_left add.commute)
  also have "\<dots> = radius\<^sup>2 * (sin phi)\<^sup>2"
    by (simp add: power_mult_distrib)
  finally have "(radius * sin phi * cos theta)\<^sup>2 + (radius * sin phi * sin theta)\<^sup>2
             + (radius * cos phi)\<^sup>2
        = radius\<^sup>2 * (sin phi)\<^sup>2 + radius\<^sup>2 * (cos phi)\<^sup>2"
    by (simp only: power_mult_distrib)
  also have "\<dots> = radius\<^sup>2 * ((sin phi)\<^sup>2 + (cos phi)\<^sup>2)"
    by (simp only: distrib_left)
  also have "\<dots> = radius\<^sup>2"
    by simp
  finally show ?thesis
    by (simp add: vlength_def vec3_def)
qed

lemma randomSpherePoint_length:
  assumes "0 \<le> rnd (k + 2)" "rnd (k + 2) < 1" "0 \<le> r"
  shows "vlength (fst (randomSpherePoint r rnd k)) \<le> r"
proof -
  let ?c = "root 3 (rnd (k + 2))"
  have c: "0 \<le> ?c" "?c \<le> 1"
    using assms(1,2) by (simp_all add: real_root_le_iff[of 3 _ 1, simplified])
  have "vlength (fst (randomSpherePoint r rnd k)) = \<bar>?c * r\<bar>"
    by (simp add: randomSpherePoint_def Let_def sphere_length)
  also have "\<dots> = ?c * r"
    using c assms(3) by simp
  also have "\<dots> \<le> 1 * r"
    using c assms(3) by (intro mult_right_mono) simp_all
  finally show ?thesis by simp
qed

lemma randomSpherePoint_next: "snd (randomSpherePoint r rnd k) = k + 3"
  by (simp add: randomSpherePoint_def Let_def)

lemma genLoop_all:
  assumes "\<And>i k. P (fst (g i rnd k))"
  shows "\<forall>p \<in> set (fst (genLoop g js rnd k)). P p"
proof (induction js arbitrary: k)
  case Nil
  show ?case by simp
next
  case (Cons i js)
  show ?case
    using assms[of i k] Cons.IH[of "snd (g i rnd k)"]
    by (simp add: Let_def split: prod.splits) (metis fst_conv snd_conv)
qed

lemma genLoop_length: "length (fst (genLoop g js rnd k)) = length js"
proof (induction js arbitrary: k)
  case Nil
  show ?case by simp
next
  case (Cons i js)
  show ?case
    using Cons.IH[of "snd (g i rnd k)"]
    by (simp add: Let_def split: prod.splits) (metis fst_conv snd_conv)
qed


lemma generateTree_fields:
  "leaves (generateTree rnd) = fst (genLoop genLeaf [0..<countLeaves] rnd 0)"
  "\<exists>k. redOrnaments (generateTree rnd)
         = map fst (filter snd (fst (genLoop genOrnament [0..<countOrnaments] rnd k)))
      \<and> goldOrnaments (generateTree rnd)
         = map fst (filter (\<lambda>e. \<not> snd e) (fst (genLoop genOrnament [0..<countOrnaments] rnd k)))"
  "\<exists>k. ribbonParticles (generateTree rnd) = fst (genLoop genRibbon [0..<countRibbon] rnd k)"
  "\<exists>k. starParticles (generateTree rnd) = fst (genLoop genStar [0..<countStar] rnd k)"
  by (simp_all add: generateTree_def Let_def case_prod_beta) blast+

lemma genLeaf_explode:
  assumes "\<forall>n. 0 \<le> rnd n \<and> rnd n < 1"
  shows "ptype (fst (genLeaf i rnd k)) = LEAF
         \<and> vlength (explodePosition (fst (genLeaf i rnd k))) \<le> 45"
  using randomSpherePoint_length[of rnd "k + 3" 45] assms
  by (simp add: genLeaf_def Let_def split: prod.splits) (metis fst_conv)

lemma genOrnament_explode:
  assumes "\<forall>n. 0 \<le> rnd n \<and> rnd n < 1"
  shows "ptype (fst (fst (genOrnament i rnd k))) = ORNAMENT
         \<and> vlength (explodePosition (fst (fst (genOrnament i rnd k)))) \<le> 55"
  using randomSpherePoint_length[of rnd "k + 3" 55] assms
  by (simp add: genOrnament_def Let_def split: prod.splits) (metis fst_conv)

lemma genRibbon_explode:
  assumes "\<forall>n. 0 \<le> rnd n \<and> rnd n < 1"
  shows "ptype (fst (genRibbon i rnd k)) = RIBBON
         \<and> vlength (explodePosition (fst (genRibbon i rnd k))) \<le> 60"
  using randomSpherePoint_length[of rnd "k + 1" 60] assms
  by (simp add: genRibbon_def Let_def split: prod.splits) (metis fst_conv)

lemma genStar_explode:
  assumes "\<forall>n. 0 \<le> rnd n \<and> rnd n < 1"
  shows "ptype (fst (genStar i rnd k)) = STAR_PARTICLE
         \<and> vlength (explodePosition (fst (genStar i rnd k))) \<le> 80"
  using randomSpherePoint_length[of rnd "k + 4" 80] assms
  by (simp add: genStar_def Let_def split: prod.splits) (metis fst_conv)

text \<open>The base scales of the generated ribbon and star particles: at least \<open>0.08\<close> and
  at least \<open>0.05\<close>.\<close>

lemma generated_wave_scales:
  assumes "\<forall>n. 0 \<le> rnd n \<and> rnd n < 1"
  shows "(\<forall>p \<in> set (ribbonParticles (generateTree rnd)). 0.08 \<le> pscale p)
    \<and> (\<forall>p \<in> set (starParticles (generateTree rnd)). 0.05 \<le> pscale p)"
proof -
  obtain k where rib: "ribbonParticles (generateTree rnd)
         = fst (genLoop genRibbon [0..<countRibbon] rnd k)"
    using generateTree_fields(3) by blast
  have rb: "\<forall>p \<in> set (ribbonParticles (generateTree rnd)). 0.08 \<le> pscale p"
    unfolding rib using assms
    by (intro genLoop_all) (simp add: genRibbon_def Let_def split: prod.splits)
  obtain k' where str: "starParticles (generateTree rnd)
         = fst (genLoop genStar [0..<countStar] rnd k')"
    using generateTree_fields(4) by blast
  have st: "\<forall>p \<in> set (starParticles (generateTree rnd)). 0.05 \<le> pscale p"
    unfolding str using assms
    by (intro genLoop_all) (simp add: genStar_def Let_def split: prod.splits)
  show ?thesis using rb st by blast
qed

text \<open>C6: whatever the draws, each in \<open>[0, 1)\<close>, every generated particle has its
  explode position within the radius of its category around the origin: 45 for leaves, 55
  for ornaments (red and gold), 60 for ribbon particles and 80 for star particles.\<close>

theorem explode_position_in_sphere:
  assumes "\<forall>n. 0 \<le> rnd n \<and> rnd n < 1"
  shows "(\<forall>p \<in> set (leaves (generateTree rnd)).
            ptype p = LEAF \<and> vlength (explodePosition p) \<le> 45)
    \<and> (\<forall>p \<in> set (redOrnaments (generateTree rnd)) \<union> set (goldOrnaments (generateTree rnd)).
            ptype p = ORNAMENT \<and> vlength (explodePosition p) \<le> 55)
    \<and> (\<forall>p \<in> set (ribbonParticles (generateTree rnd)).
            ptype p = RIBBON \<and> vlength (explodePosition p) \<le> 60)
    \<and> (\<forall>p \<in> set (starParticles (generateTree rnd)).
            ptype p = STAR_PARTICLE \<and> vlength (explodePosition p) \<le> 80)"
proof -
  have lv: "\<forall>p \<in> set (leaves (generateTree rnd)). ptype p = LEAF \<and> vlength (explodePosition p) \<le> 45"
    unfolding generateTree_fields(1)
    by (rule genLoop_all) (rule genLeaf_explode[OF assms])
  obtain k where orn: "redOrnaments (generateTree rnd)
         = map fst (filter snd (fst (genLoop genOrnament [0..<countOrnaments] rnd k)))"
      "goldOrnaments (generateTree rnd)
         = map fst (filter (\<lambda>e. \<not> snd e) (fst (genLoop genOrnament [0..<countOrnaments] rnd k)))"
    using generateTree_fields(2) by blast
  have "\<forall>e \<in> set (fst (genLoop genOrnament [0..<countOrnaments] rnd k)).
          ptype (fst e) = ORNAMENT \<and> vlength (explodePosition (fst e)) \<le> 55"
    by (rule genLoop_all) (rule genOrnament_explode[OF assms])
  then have on: "\<forall>p \<in> set (redOrnaments (generateTree rnd)) \<union> set (goldOrnaments (generateTree rnd)).
            ptype p = ORNAMENT \<and> vlength (explodePosition p) \<le> 55"
    unfolding orn by auto
  obtain k' where rib: "ribbonParticles (generateTree rnd)
         = fst (genLoop genRibbon [0..<countRibbon] rnd k')"
    using generateTree_fields(3) by blast
  have rb: "\<forall>p \<in> set (ribbonParticles (generateTree rnd)).
            ptype p = RIBBON \<and> vlength (explodePosition p) \<le> 60"
    unfolding rib by (rule genLoop_all) (rule genRibbon_explode[OF assms])
  obtain k'' where str: "starParticles (generateTree rnd)
         = fst (genLoop genStar [0..<countStar] rnd k'')"
    using generateTree_fields(4) by blast
  have st: "\<forall>p \<in> set (starParticles (generateTree rnd)).
            ptype p = STAR_PARTICLE \<and> vlength (explodePosition p) \<le> 80"
    unfolding str by (rule genLoop_all) (rule genStar_explode[OF assms])
  show ?thesis
    using lv on rb st by blast
qed

theorem explode_position_in_sphere_witness:
  "(\<forall>n. 0 \<le> (\<lambda>n. 1/2 :: real) n \<and> (\<lambda>n. 1/2 :: real) n < 1)
   \<and> length (leaves (generateTree (\<lambda>n. 1/2))) = 6000
   \<and> length (goldOrnaments (generateTree (\<lambda>n. 1/2))) = 80
   \<and> length (ribbonParticles (generateTree (\<lambda>n. 1/2))) = 1800
   \<and> length (starParticles (generateTree (\<lambda>n. 1/2))) = 400
   \<and> ptype (leaves (generateTree (\<lambda>n. 1/2)) ! 0) = LEAF
   \<and> vlength (explodePosition (leaves (generateTree (\<lambda>n. 1/2)) ! 0)) \<le> 45
   \<and> ptype (goldOrnaments (generateTree (\<lambda>n. 1/2)) ! 0) = ORNAMENT
   \<and> vlength (explodePosition (goldOrnaments (generateTree (\<lambda>n. 1/2)) ! 0)) \<le> 55
   \<and> ptype (ribbonParticles (generateTree (\<lambda>n. 1/2)) ! 0) = RIBBON
   \<and> vlength (explodePosition (ribbonParticles (generateTree (\<lambda>n. 1/2)) ! 0)) \<le> 60
   \<and> ptype (starParticles (generateTree (\<lambda>n. 1/2)) ! 0) = STAR_PARTICLE
   \<and> vlength (explodePosition (starParticles (generateTree (\<lambda>n. 1/2)) ! 0)) \<le> 80
   \<and> fst (randomSpherePoint 45 (\<lambda>n. 1/2) 3) = vec3 (- (root 3 (1/2) * 45)) 0 0"
proof -
  let ?T = "generateTree (\<lambda>n. 1/2)"
  have h: "\<forall>n. 0 \<le> (\<lambda>n. 1/2 :: real) n \<and> (\<lambda>n. 1/2 :: real) n < 1" by simp
  have l1: "length (leaves ?T) = 6000"
    unfolding generateTree_fields(1) genLoop_length by (simp add: countLeaves_def)
  obtain k where orn: "goldOrnaments ?T
      = map fst (filter (\<lambda>e. \<not> snd e) (fst (genLoop genOrnament [0..<countOrnaments] (\<lambda>n. 1/2) k)))"
    using generateTree_fields(2)[of "\<lambda>n. 1/2"] by blast
  have "\<forall>e \<in> set (fst (genLoop genOrnament [0..<countOrnaments] (\<lambda>n. 1/2) k)). \<not> snd e"
    by (rule genLoop_all) (simp add: genOrnament_def Let_def split: prod.splits)
  then have "filter (\<lambda>e. \<not> snd e) (fst (genLoop genOrnament [0..<countOrnaments] (\<lambda>n. 1/2) k))
             = fst (genLoop genOrnament [0..<countOrnaments] (\<lambda>n. 1/2) k)"
    by (simp add: filter_id_conv)
  then have l2: "length (goldOrnaments ?T) = 80"
    unfolding orn by (simp add: genLoop_length countOrnaments_def)
  have l3: "length (ribbonParticles ?T) = 1800"
    using generateTree_fields(3)[of "\<lambda>n. 1/2"] by (auto simp: genLoop_length countRibbon_def)
  have l4: "length (starParticles ?T) = 400"
    using generateTree_fields(4)[of "\<lambda>n. 1/2"] by (auto simp: genLoop_length countStar_def)
  have m: "leaves ?T ! 0 \<in> set (leaves ?T)"
    "goldOrnaments ?T ! 0 \<in> set (redOrnaments ?T) \<union> set (goldOrnaments ?T)"
    "ribbonParticles ?T ! 0 \<in> set (ribbonParticles ?T)"
    "starParticles ?T ! 0 \<in> set (starParticles ?T)"
    using l1 l2 l3 l4 by simp_all
  have pt: "fst (randomSpherePoint 45 (\<lambda>n. 1/2) 3) = vec3 (- (root 3 (1/2) * 45)) 0 0"
    by (simp add: randomSpherePoint_def Let_def vec3_def)
  show ?thesis
    using explode_position_in_sphere[OF h] h l1 l2 l3 l4 m pt by blast
qed

section \<open>Properties of the gallery layout\<close>

lemma attempts_Some:
  "attempts n rnd k data = (Some c, k')
   \<Longrightarrow> \<exists>a < n. c = candidateAt rnd (k + 3 * a)
         \<and> \<not> collision (candidateAt rnd (k + 3 * a)) data
         \<and> (\<forall>b < a. collision (candidateAt rnd (k + 3 * b)) data)"
proof (induction n arbitrary: k)
  case 0
  then show ?case by simp
next
  case (Suc n)
  show ?case
  proof (cases "collision (candidateAt rnd k) data")
    case False
    then have "c = candidateAt rnd k"
      using Suc.prems by (simp add: Let_def)
    then have "c = candidateAt rnd (k + 3 * 0) \<and> \<not> collision (candidateAt rnd (k + 3 * 0)) data
         \<and> (\<forall>b < (0::nat). collision (candidateAt rnd (k + 3 * b)) data)"
      using False by simp
    then show ?thesis by blast
  next
    case True
    then have "attempts n rnd (k + 3) data = (Some c, k')"
      using Suc.prems by (simp add: Let_def)
    then obtain a where a: "a < n" "c = candidateAt rnd (k + 3 + 3 * a)"
        "\<not> collision (candidateAt rnd (k + 3 + 3 * a)) data"
        "\<forall>b < a. collision (candidateAt rnd (k + 3 + 3 * b)) data"
      using Suc.IH by blast
    have e: "k + 3 + 3 * x = k + 3 * Suc x" for x by simp
    note a' = a[unfolded e]
    have "collision (candidateAt rnd (k + 3 * b)) data" if "b < Suc a" for b
    proof (cases b)
      case 0
      then show ?thesis using True by simp
    next
      case (Suc b')
      then have "b' < a" using that by simp
      then show ?thesis using a'(4) Suc by blast
    qed
    then have "Suc a < Suc n \<and> c = candidateAt rnd (k + 3 * Suc a)
         \<and> \<not> collision (candidateAt rnd (k + 3 * Suc a)) data
         \<and> (\<forall>b < Suc a. collision (candidateAt rnd (k + 3 * b)) data)"
      using a' by blast
    then show ?thesis by blast
  qed
qed

lemma attempts_None:
  "attempts n rnd k data = (None, k')
   \<Longrightarrow> k' = k + 3 * n \<and> (\<forall>a < n. collision (candidateAt rnd (k + 3 * a)) data)"
proof (induction n arbitrary: k)
  case 0
  then show ?case by simp
next
  case (Suc n)
  have c: "collision (candidateAt rnd k) data"
    and rest: "attempts n rnd (k + 3) data = (None, k')"
    using Suc.prems by (auto simp: Let_def split: if_splits)
  have e: "k + 3 + 3 * x = k + 3 * Suc x" for x by simp
  have ih: "k' = k + 3 * Suc n" "\<forall>a < n. collision (candidateAt rnd (k + 3 * Suc a)) data"
    using Suc.IH[OF rest] unfolding e by blast+
  have "collision (candidateAt rnd (k + 3 * a)) data" if "a < Suc n" for a
  proof (cases a)
    case 0
    then show ?thesis using c by simp
  next
    case (Suc b)
    then have "b < n" using that by simp
    then show ?thesis using ih(2) Suc by blast
  qed
  then show ?case using ih(1) by blast
qed

lemma attempts_all_collide:
  "\<forall>a < n. collision (candidateAt rnd (k + 3 * a)) data
   \<Longrightarrow> attempts n rnd k data = (None, k + 3 * n)"
proof (induction n arbitrary: k)
  case 0
  show ?case by simp
next
  case (Suc n)
  have c: "collision (candidateAt rnd k) data"
    using Suc.prems[rule_format, of 0] by simp
  have e: "k + 3 + 3 * x = k + 3 * Suc x" for x by simp
  have "\<forall>a < n. collision (candidateAt rnd (k + 3 * Suc a)) data"
    using Suc.prems by (metis Suc_less_eq)
  then have "\<forall>a < n. collision (candidateAt rnd (k + 3 + 3 * a)) data"
    unfolding e .
  then have "attempts n rnd (k + 3) data = (None, k + 3 + 3 * n)"
    by (rule Suc.IH)
  then have "attempts n rnd (k + 3) data = (None, k + 3 * Suc n)"
    unfolding e .
  then show ?case using c by (simp add: Let_def)
qed

lemma collision_iff:
  "collision c data \<longleftrightarrow> (\<exists>e \<in> set data. distanceTo c (treePos e) < minDistance)"
  by (simp add: collision_def list_ex_iff)

lemma distanceTo_commute: "distanceTo a v = distanceTo v a"
  by (simp add: distanceTo_def power2_commute)

lemma placedWell_snoc:
  assumes "placedWell rnd n_count data"
    and "valid e \<longrightarrow>
           (\<exists>k a. a < maxAttempts \<and> treePos e = candidateAt rnd (k + 3 * a)
              \<and> \<not> collision (candidateAt rnd (k + 3 * a)) data
              \<and> (\<forall>b < a. collision (candidateAt rnd (k + 3 * b)) data))"
    and "\<not> valid e \<longrightarrow> treePos e = getSpiralPos (length data) n_count
           \<and> (\<exists>k. \<forall>a < maxAttempts. collision (candidateAt rnd (k + 3 * a)) data)"
  shows "placedWell rnd n_count (data @ [e])"
  unfolding placedWell_def
proof (intro allI impI)
  fix j assume j: "j < length (data @ [e])"
  let ?D = "data @ [e]"
  show "(valid (?D ! j) \<longrightarrow>
           (\<forall>i < j. minDistance \<le> distanceTo (treePos (?D ! i)) (treePos (?D ! j)))
           \<and> (\<exists>k a. a < maxAttempts
                 \<and> treePos (?D ! j) = candidateAt rnd (k + 3 * a)
                 \<and> \<not> collision (candidateAt rnd (k + 3 * a)) (take j ?D)
                 \<and> (\<forall>b < a. collision (candidateAt rnd (k + 3 * b)) (take j ?D))))
        \<and> (\<not> valid (?D ! j) \<longrightarrow>
             treePos (?D ! j) = getSpiralPos j n_count
             \<and> (\<exists>k. \<forall>a < maxAttempts. collision (candidateAt rnd (k + 3 * a)) (take j ?D)))"
  proof (cases "j < length data")
    case True
    then have "?D ! j = data ! j" "take j ?D = take j data" "\<forall>i < j. ?D ! i = data ! i"
      by (simp_all add: nth_append)
    then show ?thesis
      using assms(1) True unfolding placedWell_def by simp
  next
    case False
    then have je: "j = length data" using j by simp
    have tk: "?D ! j = e" "take j ?D = data" "\<forall>i < j. ?D ! i = data ! i"
      unfolding je by (simp_all add: nth_append)
    have far: "minDistance \<le> distanceTo (treePos (data ! i)) (treePos e)"
      if "valid e" "i < length data" for i
    proof -
      have "\<not> collision (treePos e) data"
        using assms(2) that(1) by auto
      then have "\<not> distanceTo (treePos e) (treePos (data ! i)) < minDistance"
        using that(2) by (auto simp: collision_iff)
      then show ?thesis by (simp add: distanceTo_commute[of "treePos e"])
    qed
    have far': "\<forall>i < j. minDistance \<le> distanceTo (treePos (?D ! i)) (treePos e)" if "valid e"
      using far[OF that] by (simp add: je nth_append)
    show ?thesis
      unfolding tk(1,2) using assms(2,3) far' by (simp add: je)
  qed
qed

lemma layoutLoop_upt:
  "placedWell rnd n_count data \<Longrightarrow> length data = m \<Longrightarrow> m \<le> n
   \<Longrightarrow> length (layoutLoop orient n_count [m..<n] rnd k data) = n
       \<and> placedWell rnd n_count (layoutLoop orient n_count [m..<n] rnd k data)"
proof (induction "n - m" arbitrary: m k data)
  case 0
  then show ?case by simp
next
  case (Suc d)
  then have mn: "m < n" by simp
  then have upt: "[m..<n] = m # [Suc m..<n]" by (rule upt_conv_Cons)
  obtain found k1 where att: "attempts maxAttempts rnd k data = (found, k1)"
    by (cases "attempts maxAttempts rnd k data")
  define bestPos where "bestPos = (case found of Some c \<Rightarrow> c | None \<Rightarrow> getSpiralPos m n_count)"
  obtain rx ry rz where ori: "orient bestPos = (rx, ry, rz)"
    by (cases "orient bestPos") auto
  define entry where "entry = \<lparr>treePos = bestPos,
      treeRot = (rx + (rnd (k1 + 4) - 0.5) * 2 * (10 * pi / 180),
                 ry + (rnd (k1 + 4 + 1) - 0.5) * 2 * (10 * pi / 180),
                 rz + (rnd (k1 + 4 + 2) - 0.5) * 2 * (10 * pi / 180)),
      valid = (found \<noteq> None)\<rparr>"
  have step: "layoutLoop orient n_count [m..<n] rnd k data
              = layoutLoop orient n_count [Suc m..<n] rnd (k1 + 4 + 3) (data @ [entry])"
    unfolding upt by (simp add: att Let_def bestPos_def[symmetric] ori entry_def)
  have free: "valid entry \<longrightarrow>
           (\<exists>k a. a < maxAttempts \<and> treePos entry = candidateAt rnd (k + 3 * a)
              \<and> \<not> collision (candidateAt rnd (k + 3 * a)) data
              \<and> (\<forall>b < a. collision (candidateAt rnd (k + 3 * b)) data))"
  proof
    assume "valid entry"
    then obtain c where c: "found = Some c" by (auto simp: entry_def)
    then have "treePos entry = c" by (simp add: entry_def bestPos_def)
    then show "\<exists>k a. a < maxAttempts \<and> treePos entry = candidateAt rnd (k + 3 * a)
              \<and> \<not> collision (candidateAt rnd (k + 3 * a)) data
              \<and> (\<forall>b < a. collision (candidateAt rnd (k + 3 * b)) data)"
      using attempts_Some[of maxAttempts rnd k data c k1] att c by blast
  qed
  have spiral: "\<not> valid entry \<longrightarrow> treePos entry = getSpiralPos (length data) n_count
           \<and> (\<exists>k. \<forall>a < maxAttempts. collision (candidateAt rnd (k + 3 * a)) data)"
  proof
    assume "\<not> valid entry"
    then have none: "found = None" by (simp add: entry_def)
    then have "treePos entry = getSpiralPos (length data) n_count"
      using Suc.prems(2) by (simp add: entry_def bestPos_def)
    moreover have "\<forall>a < maxAttempts. collision (candidateAt rnd (k + 3 * a)) data"
      using attempts_None[of maxAttempts rnd k data k1] att none by simp
    ultimately show "treePos entry = getSpiralPos (length data) n_count
           \<and> (\<exists>k. \<forall>a < maxAttempts. collision (candidateAt rnd (k + 3 * a)) data)"
      by blast
  qed
  have "length (layoutLoop orient n_count [Suc m..<n] rnd (k1 + 4 + 3) (data @ [entry])) = n
       \<and> placedWell rnd n_count
           (layoutLoop orient n_count [Suc m..<n] rnd (k1 + 4 + 3) (data @ [entry]))"
  proof (rule Suc.hyps(1))
    show "d = n - Suc m" using Suc.hyps(2) by simp
    show "placedWell rnd n_count (data @ [entry])"
      by (rule placedWell_snoc[OF Suc.prems(1) free spiral])
    show "length (data @ [entry]) = Suc m" using Suc.prems(2) by simp
    show "Suc m \<le> n" using mn by simp
  qed
  then show ?case unfolding step .
qed

text \<open>C5: for every photo list, the layout has exactly as many placements as photos; any
  two placements that both come from the random search have their centres at least
  \<open>3.6\<close> apart. A placement from the random search is one of at most 100 successive
  candidates, the first that collides with no earlier placement. A placement not from the
  random search is the spiral position of its index, taken after 100 successive candidates
  all collided with the earlier placements.\<close>

theorem layout_places_every_photo:
  "length (layoutData orient photos rnd) = length photos
   \<and> (\<forall>i j. i < j \<and> j < length photos
          \<and> valid (layoutData orient photos rnd ! i) \<and> valid (layoutData orient photos rnd ! j)
        \<longrightarrow> 3.6 \<le> distanceTo (treePos (layoutData orient photos rnd ! i))
                           (treePos (layoutData orient photos rnd ! j)))
   \<and> (\<forall>j < length photos. valid (layoutData orient photos rnd ! j)
        \<longrightarrow> (\<exists>k a. a < 100
               \<and> treePos (layoutData orient photos rnd ! j) = candidateAt rnd (k + 3 * a)
               \<and> \<not> collision (candidateAt rnd (k + 3 * a)) (take j (layoutData orient photos rnd))
               \<and> (\<forall>b < a. collision (candidateAt rnd (k + 3 * b))
                             (take j (layoutData orient photos rnd)))))
   \<and> (\<forall>j < length photos. \<not> valid (layoutData orient photos rnd ! j)
        \<longrightarrow> treePos (layoutData orient photos rnd ! j) = getSpiralPos j (length photos)
          \<and> (\<exists>k. \<forall>a < 100. collision (candidateAt rnd (k + 3 * a))
                                (take j (layoutData orient photos rnd))))"
proof -
  let ?L = "layoutData orient photos rnd"
  have "placedWell rnd (length photos) []"
    by (simp add: placedWell_def)
  then have len: "length ?L = length photos" and pw: "placedWell rnd (length photos) ?L"
    unfolding layoutData_def by (simp_all add: layoutLoop_upt)
  have pw': "\<forall>j < length photos.
        (valid (?L ! j) \<longrightarrow>
           (\<forall>i < j. 3.6 \<le> distanceTo (treePos (?L ! i)) (treePos (?L ! j)))
           \<and> (\<exists>k a. a < 100
                 \<and> treePos (?L ! j) = candidateAt rnd (k + 3 * a)
                 \<and> \<not> collision (candidateAt rnd (k + 3 * a)) (take j ?L)
                 \<and> (\<forall>b < a. collision (candidateAt rnd (k + 3 * b)) (take j ?L))))
        \<and> (\<not> valid (?L ! j) \<longrightarrow>
             treePos (?L ! j) = getSpiralPos j (length photos)
             \<and> (\<exists>k. \<forall>a < 100. collision (candidateAt rnd (k + 3 * a)) (take j ?L)))"
    using pw unfolding placedWell_def len minDistance_def maxAttempts_def .
  have c2: "3.6 \<le> distanceTo (treePos (?L ! i)) (treePos (?L ! j))"
    if "i < j" "j < length photos" "valid (?L ! j)" for i j
    using pw' that by blast
  show ?thesis
    using len pw' c2 by blast
qed


lemma attempts_first:
  assumes "\<not> collision (candidateAt rnd k) data"
  shows "attempts maxAttempts rnd k data = (Some (candidateAt rnd k), k + 3)"
proof -
  have e: "maxAttempts = Suc 99" by (simp add: maxAttempts_def)
  show ?thesis
    unfolding e attempts.simps(2) using assms by (simp add: Let_def)
qed

lemma attempts_second:
  assumes "collision (candidateAt rnd k) data" "\<not> collision (candidateAt rnd (k + 3)) data"
  shows "attempts maxAttempts rnd k data = (Some (candidateAt rnd (k + 3)), k + 3 + 3)"
proof -
  have e: "maxAttempts = Suc (Suc 98)" by (simp add: maxAttempts_def)
  show ?thesis
    unfolding e attempts.simps(2) using assms by (simp add: Let_def)
qed

lemma layoutLoop_step:
  assumes "attempts maxAttempts rnd k data = (found, k1)"
  shows "\<exists>rot. layoutLoop orient n_count (i # js) rnd k data
         = layoutLoop orient n_count js rnd (k1 + 4 + 3)
             (data @ [\<lparr>treePos = (case found of Some c \<Rightarrow> c | None \<Rightarrow> getSpiralPos i n_count),
                       treeRot = rot, valid = (found \<noteq> None)\<rparr>])"
  by (cases "orient (case found of Some c \<Rightarrow> c | None \<Rightarrow> getSpiralPos i n_count)")
     (simp add: assms Let_def, blast)

lemma candidateAt_zero:
  assumes "rnd k = 0" "rnd (k + 1) = 0" "rnd (k + 2) = 0"
  shows "candidateAt rnd k = vec3 7.55 (-10) 0"
  using assms
  by (simp add: candidateAt_def Let_def yMin_def yMax_def layoutBaseRadius_def)

lemma collision_same:
  assumes "e \<in> set data" "treePos e = c"
  shows "collision c data"
proof -
  have "distanceTo c (treePos e) < minDistance"
    using assms(2) by (simp add: distanceTo_def minDistance_def)
  then show ?thesis
    using assms(1) unfolding collision_iff by blast
qed

theorem layout_places_every_photo_witness:
  "length (layoutData (\<lambda>p. (0, 0, 0)) [''a.jpg'', ''b.jpg'', ''c.jpg''] drawsExample) = 3
   \<and> (0::nat) < 1 \<and> (1::nat) < length [''a.jpg'', ''b.jpg'', ''c.jpg'']
   \<and> (2::nat) < length [''a.jpg'', ''b.jpg'', ''c.jpg'']
   \<and> valid (layoutData (\<lambda>p. (0, 0, 0)) [''a.jpg'', ''b.jpg'', ''c.jpg''] drawsExample ! 0)
   \<and> valid (layoutData (\<lambda>p. (0, 0, 0)) [''a.jpg'', ''b.jpg'', ''c.jpg''] drawsExample ! 1)
   \<and> \<not> valid (layoutData (\<lambda>p. (0, 0, 0)) [''a.jpg'', ''b.jpg'', ''c.jpg''] drawsExample ! 2)
   \<and> treePos (layoutData (\<lambda>p. (0, 0, 0)) [''a.jpg'', ''b.jpg'', ''c.jpg''] drawsExample ! 0)
       = vec3 7.55 (-10) 0
   \<and> collision (candidateAt drawsExample 10)
         (take 1 (layoutData (\<lambda>p. (0, 0, 0)) [''a.jpg'', ''b.jpg'', ''c.jpg''] drawsExample))
   \<and> treePos (layoutData (\<lambda>p. (0, 0, 0)) [''a.jpg'', ''b.jpg'', ''c.jpg''] drawsExample ! 1)
       = candidateAt drawsExample 13
   \<and> candidateAt drawsExample 13 = vec3 5 (-1.5) 0
   \<and> 3.6 \<le> distanceTo
         (treePos (layoutData (\<lambda>p. (0, 0, 0)) [''a.jpg'', ''b.jpg'', ''c.jpg''] drawsExample ! 0))
         (treePos (layoutData (\<lambda>p. (0, 0, 0)) [''a.jpg'', ''b.jpg'', ''c.jpg''] drawsExample ! 1))
   \<and> collision (candidateAt drawsExample (23 + 3 * 0))
         (take 2 (layoutData (\<lambda>p. (0, 0, 0)) [''a.jpg'', ''b.jpg'', ''c.jpg''] drawsExample))
   \<and> collision (candidateAt drawsExample (23 + 3 * 99))
         (take 2 (layoutData (\<lambda>p. (0, 0, 0)) [''a.jpg'', ''b.jpg'', ''c.jpg''] drawsExample))
   \<and> treePos (layoutData (\<lambda>p. (0, 0, 0)) [''a.jpg'', ''b.jpg'', ''c.jpg''] drawsExample ! 2)
       = getSpiralPos 2 3"
proof -
  let ?o = "\<lambda>p::Vector3. (0::real, 0::real, 0::real)"
  let ?ph = "[''a.jpg'', ''b.jpg'', ''c.jpg'']"
  let ?L = "layoutData ?o ?ph drawsExample"
  let ?c0 = "vec3 7.55 (-10) 0"
  have zero: "candidateAt drawsExample k = ?c0" if "k \<noteq> 13" "k \<noteq> 12" "k \<noteq> 11" for k
    using that by (intro candidateAt_zero) (simp_all add: drawsExample_def)
  have c13: "candidateAt drawsExample 13 = vec3 5 (-1.5) 0"
    by (simp add: candidateAt_def drawsExample_def Let_def yMin_def yMax_def layoutBaseRadius_def)
  have "3.6\<^sup>2 \<le> (5 - 7.55)\<^sup>2 + (-1.5 - (-10))\<^sup>2 + (0 - 0 :: real)\<^sup>2"
    by (simp add: power2_eq_square)
  then have far: "3.6 \<le> distanceTo (vec3 5 (-1.5) 0) ?c0"
    unfolding distanceTo_def vec3_def by (intro real_le_rsqrt) simp
  text \<open>First photo: the first candidate is free.\<close>
  have "\<not> collision (candidateAt drawsExample 0) []"
    by (simp add: collision_def)
  then have a0: "attempts maxAttempts drawsExample 0 [] = (Some (candidateAt drawsExample 0), 0 + 3)"
    by (rule attempts_first)
  obtain r0 where s0: "layoutLoop ?o 3 [0, 1, 2] drawsExample 0 []
      = layoutLoop ?o 3 [1, 2] drawsExample (0 + 3 + 4 + 3)
          ([] @ [\<lparr>treePos = (case Some (candidateAt drawsExample 0) of Some c \<Rightarrow> c
                                | None \<Rightarrow> getSpiralPos 0 3),
                   treeRot = r0, valid = (Some (candidateAt drawsExample 0) \<noteq> None)\<rparr>])"
    using layoutLoop_step[OF a0] by blast
  define e0 where "e0 = \<lparr>treePos = ?c0, treeRot = r0, valid = True\<rparr>"
  have s0': "layoutLoop ?o 3 [0, 1, 2] drawsExample 0 [] = layoutLoop ?o 3 [1, 2] drawsExample 10 [e0]"
    unfolding s0 e0_def by (simp add: zero)
  text \<open>Second photo: the first candidate collides, the second is free.\<close>
  have hit1: "collision (candidateAt drawsExample 10) [e0]"
    by (rule collision_same[of e0]) (simp_all add: e0_def zero)
  have free1: "\<not> collision (candidateAt drawsExample (10 + 3)) [e0]"
    using far by (simp add: c13 collision_def e0_def minDistance_def)
  have a1: "attempts maxAttempts drawsExample 10 [e0]
            = (Some (candidateAt drawsExample (10 + 3)), 10 + 3 + 3)"
    by (rule attempts_second[OF hit1 free1])
  obtain r1 where s1: "layoutLoop ?o 3 [1, 2] drawsExample 10 [e0]
      = layoutLoop ?o 3 [2] drawsExample (10 + 3 + 3 + 4 + 3)
          ([e0] @ [\<lparr>treePos = (case Some (candidateAt drawsExample (10 + 3)) of Some c \<Rightarrow> c
                                | None \<Rightarrow> getSpiralPos 1 3),
                   treeRot = r1, valid = (Some (candidateAt drawsExample (10 + 3)) \<noteq> None)\<rparr>])"
    using layoutLoop_step[OF a1] by blast
  define e1 where "e1 = \<lparr>treePos = candidateAt drawsExample 13, treeRot = r1, valid = True\<rparr>"
  have s1': "layoutLoop ?o 3 [1, 2] drawsExample 10 [e0] = layoutLoop ?o 3 [2] drawsExample 23 [e0, e1]"
    unfolding s1 e1_def by simp
  text \<open>Third photo: all 100 candidates collide with the first placement.\<close>
  have hit2: "collision (candidateAt drawsExample (23 + 3 * a)) [e0, e1]" for a
    by (rule collision_same[of e0]) (simp_all add: e0_def zero)
  then have a2: "attempts maxAttempts drawsExample 23 [e0, e1] = (None, 23 + 3 * maxAttempts)"
    by (intro attempts_all_collide) simp
  obtain r2 where s2: "layoutLoop ?o 3 [2] drawsExample 23 [e0, e1]
      = layoutLoop ?o 3 [] drawsExample (23 + 3 * maxAttempts + 4 + 3)
          ([e0, e1] @ [\<lparr>treePos = (case None of Some c \<Rightarrow> c | None \<Rightarrow> getSpiralPos 2 3),
                   treeRot = r2, valid = ((None :: Vector3 option) \<noteq> None)\<rparr>])"
    using layoutLoop_step[OF a2] by blast
  define e2 where "e2 = \<lparr>treePos = getSpiralPos 2 3, treeRot = r2, valid = False\<rparr>"
  have s2': "layoutLoop ?o 3 [2] drawsExample 23 [e0, e1] = [e0, e1, e2]"
    unfolding s2 e2_def by simp
  have n: "length ?ph = 3" by simp
  have upt: "[0..<3::nat] = [0, 1, 2]"
    by (simp add: upt_rec)
  have L: "?L = [e0, e1, e2]"
    unfolding layoutData_def n upt s0' s1' s2' ..
  have v: "valid (?L ! 0)" "valid (?L ! 1)" "\<not> valid (?L ! 2)"
    and p: "treePos (?L ! 0) = ?c0" "treePos (?L ! 1) = candidateAt drawsExample 13"
    and tk: "take 1 ?L = [e0]" "take 2 ?L = [e0, e1]"
    unfolding L by (simp_all add: e0_def e1_def e2_def)
  have idx: "(0::nat) < 1" "(1::nat) < length ?ph" "(2::nat) < length ?ph" by simp_all
  note inst = layout_places_every_photo[of ?o ?ph drawsExample]
  have len: "length ?L = 3" using inst by simp
  have d: "3.6 \<le> distanceTo (treePos (?L ! 0)) (treePos (?L ! 1))"
    using inst idx v by blast
  have "treePos (?L ! 2) = getSpiralPos 2 (length ?ph)"
    by (rule inst[THEN conjunct2, THEN conjunct2, THEN conjunct2, rule_format, OF idx(3) v(3),
          THEN conjunct1])
  then have sp: "treePos (?L ! 2) = getSpiralPos 2 3"
    unfolding n .
  have h1: "collision (candidateAt drawsExample 10) (take 1 ?L)"
    unfolding tk by (rule hit1)
  have h2: "collision (candidateAt drawsExample (23 + 3 * 0)) (take 2 ?L)"
    "collision (candidateAt drawsExample (23 + 3 * 99)) (take 2 ?L)"
    unfolding tk by (rule hit2)+
  show ?thesis
    using len idx v p c13 d h1 h2 sp by (intro conjI) assumption+
qed

end
